theory Spec2Isabelle
  imports Main "HOL-Library.Word" "HOL-Library.Char_ord" "HOL-Library.List_Lexorder"
begin

unbundle bit_operations_syntax

section \<open>Voice agent: the call-turn orchestration core\<close>

text \<open>
  A shallow embedding of \<^verbatim>\<open>voice-agent/src/index.js\<close>, \<^verbatim>\<open>voice-agent/src/twilio.js\<close> and of the
  speech-synthesis helper \<^verbatim>\<open>synthesizeWavStrict\<close>. Process-wide mutable state (the greeted
  set, the de-duplication map, the audio directory) is passed explicitly; the clock and the
  answers of the outside collaborators (chat, speech synthesis, storage, call control) are
  inputs of each step; a JavaScript exception is the \<open>Inl\<close> of a sum.
\<close>

subsection \<open>JavaScript strings\<close>

text \<open>
  A JavaScript string is a sequence of code units; the model uses \<^typ>\<open>string\<close>, whose
  characters are the code units \<open>0..255\<close>. On that range \<^verbatim>\<open>toLowerCase\<close> maps \<open>A..Z\<close> and the
  Latin-1 capitals \<open>0xC0..0xDE\<close> (without the multiplication sign \<open>0xD7\<close>) to the character 32
  places further on and leaves every other character alone.
\<close>

definition lower_char :: "char \<Rightarrow> char" where
  "lower_char c =
     (let n = (of_char c :: nat)
      in if (65 \<le> n \<and> n \<le> 90) \<or> (192 \<le> n \<and> n \<le> 222 \<and> n \<noteq> 215)
         then char_of (n + 32) else c)"

definition toLowerCase :: "string \<Rightarrow> string" where
  "toLowerCase s = map lower_char s"

definition startsWith :: "string \<Rightarrow> string \<Rightarrow> bool" where
  "startsWith s t = (take (length t) s = t)"

definition endsWith :: "string \<Rightarrow> string \<Rightarrow> bool" where
  "endsWith s t = (length t \<le> length s \<and> drop (length s - length t) s = t)"

text \<open>\<^verbatim>\<open>s.includes(t)\<close>: \<open>t\<close> occurs in \<open>s\<close> at some position.\<close>

fun str_includes :: "string \<Rightarrow> string \<Rightarrow> bool" where
  "str_includes [] t = (t = [])"
| "str_includes (c # cs) t = (startsWith (c # cs) t \<or> str_includes cs t)"

text \<open>\<^verbatim>\<open>xs.join(sep)\<close> on an array of strings.\<close>

fun js_join :: "string \<Rightarrow> string list \<Rightarrow> string" where
  "js_join sep [] = []"
| "js_join sep [x] = x"
| "js_join sep (x # y # ys) = x @ sep @ js_join sep (y # ys)"

text \<open>
  \<^verbatim>\<open>s.trim()\<close> removes leading and trailing white space; on the modelled code units these are
  tab, line feed, vertical tab, form feed, carriage return, space and the no-break space.
\<close>

definition is_space :: "char \<Rightarrow> bool" where
  "is_space c = ((of_char c :: nat) \<in> {9, 10, 11, 12, 13, 32, 160})"

definition js_trim :: "string \<Rightarrow> string" where
  "js_trim s = rev (dropWhile is_space (rev (dropWhile is_space s)))"

subsection \<open>Form bodies\<close>

text \<open>
  The form-body parser gives an object whose values are strings, or arrays of strings for a
  key sent more than once. The object is modelled by the list of its own properties in
  insertion order; \<open>body[k]\<close> is \<^term>\<open>map_of body k\<close>, and \<open>None\<close> is \<^verbatim>\<open>undefined\<close>.
\<close>

datatype fval = FStr string | FArr "string list"

type_synonym form = "(string \<times> fval) list"

text \<open>\<^verbatim>\<open>String(v)\<close> and \<^verbatim>\<open>v.toString()\<close>: an array is joined with commas.\<close>

fun js_String :: "fval \<Rightarrow> string" where
  "js_String (FStr s) = s"
| "js_String (FArr xs) = js_join '','' xs"

text \<open>Truthiness: the empty string is falsy, every array is truthy.\<close>

fun truthy :: "fval \<Rightarrow> bool" where
  "truthy (FStr s) = (s \<noteq> [])"
| "truthy (FArr xs) = True"

text \<open>
  \<^verbatim>\<open>pick(body, ...keys)\<close>: the first key whose value is not null or undefined, as a string,
  and the empty string when there is none.
\<close>

fun pick :: "form \<Rightarrow> string list \<Rightarrow> string" where
  "pick body [] = []"
| "pick body (k # ks) =
     (case map_of body k of Some v \<Rightarrow> js_String v | None \<Rightarrow> pick body ks)"

subsection \<open>Event classifier: finality\<close>

definition isFinalEvent :: "form \<Rightarrow> bool" where
  "isFinalEvent body =
     (let finalFlag = toLowerCase (pick body [''Final'', ''final''])
      in if finalFlag = ''true'' then True
         else
           let evt = toLowerCase (pick body [''TranscriptionEvent'', ''event'', ''EventType''])
           in if str_includes evt ''stopped'' then True
              else
                let status = toLowerCase (pick body [''TranscriptionStatus'', ''Status''])
                in if status = ''completed'' \<or> status = ''final'' then True
                   else False)"

text \<open>
  The three signals in the words of the specification. Two strings are equal
  case-insensitively when they have the same length and agree, position by position, up to
  the case of letters; a string contains another case-insensitively when some stretch of it
  equals the other case-insensitively. The final-flag, event-type and status fields of a
  payload are the first present among their aliases, and \<open>finality_keys\<close> lists all the
  aliases.
\<close>

definition ci_equal :: "string \<Rightarrow> string \<Rightarrow> bool" where
  "ci_equal a b = list_all2 (\<lambda>x y. lower_char x = lower_char y) a b"

fun ci_contains :: "string \<Rightarrow> string \<Rightarrow> bool" where
  "ci_contains [] t = (t = [])"
| "ci_contains (c # cs) t = (ci_equal (take (length t) (c # cs)) t \<or> ci_contains cs t)"

definition final_flag_field :: "form \<Rightarrow> string" where
  "final_flag_field body = pick body [''Final'', ''final'']"

definition event_type_field :: "form \<Rightarrow> string" where
  "event_type_field body = pick body [''TranscriptionEvent'', ''event'', ''EventType'']"

definition status_field :: "form \<Rightarrow> string" where
  "status_field body = pick body [''TranscriptionStatus'', ''Status'']"

definition finality_keys :: "string list" where
  "finality_keys =
     [''Final'', ''final'', ''TranscriptionEvent'', ''event'', ''EventType'',
      ''TranscriptionStatus'', ''Status'']"

subsection \<open>Errors, configuration and collaborators\<close>

text \<open>An exception raised by the code, by the place that raises it.\<close>

datatype error =
    TransportError                \<comment> \<open>\<^verbatim>\<open>fetch\<close> or the reading of its body rejects\<close>
  | ChatError                     \<comment> \<open>\<^verbatim>\<open>chatReply\<close> raises\<close>
  | TtsErrorStatus nat            \<comment> \<open>OpenAI TTS error: the response is not ok\<close>
  | TtsNonAudio                   \<comment> \<open>OpenAI TTS returned non-audio\<close>
  | TtsNotWav                     \<comment> \<open>Expected WAV bytes\<close>
  | StorageError                  \<comment> \<open>the audio directory or the file cannot be written\<close>
  | TwilioRedirectError nat       \<comment> \<open>Twilio redirect error: the response is not ok\<close>

type_synonym byte = "8 word"

text \<open>
  What \<^verbatim>\<open>fetch\<close> resolves to, with the body read: \<^verbatim>\<open>r.ok\<close>, \<^verbatim>\<open>r.status\<close>, the
  \<^verbatim>\<open>content-type\<close> header (\<open>None\<close> when the response has none) and the bytes of the body.
\<close>

record response =
  ok :: bool
  http_status :: nat
  content_type :: "string option"
  bytes :: "byte list"

text \<open>
  The configuration \<^verbatim>\<open>cfg\<close> as \<^verbatim>\<open>loadConfig\<close> returns it. A field that may be undefined is an
  option; \<open>host\<close> and \<open>accountSid\<close> only ever appear inside template literals and stand for
  their renderings there.
\<close>

record config =
  host :: string
  greeting :: "string option"
  language :: "string option"
  validateSignature :: bool
  authToken :: "string option"
  accountSid :: string
  apiKey :: string
  chatModel :: string
  ttsModel :: "string option"
  voice :: "string option"
  system_prompt :: string
  max_response_chars :: nat

text \<open>\<^verbatim>\<open>v || d\<close> on a string that may be undefined: undefined and the empty string are falsy.\<close>

fun or_default :: "string option \<Rightarrow> string \<Rightarrow> string" where
  "or_default None d = d"
| "or_default (Some s) d = (if s = [] then d else s)"

definition absoluteUrl :: "string \<Rightarrow> string \<Rightarrow> string" where
  "absoluteUrl h rel = ''https://'' @ h @ (if startsWith rel ''/'' then [] else ''/'') @ rel"

definition escapeXml_char :: "char \<Rightarrow> string" where
  "escapeXml_char ch =
     (if ch = CHR ''<'' then ''&lt;'' else if ch = CHR ''>'' then ''&gt;''
      else if ch = CHR ''&'' then ''&amp;'' else if ch = CHR 0x22 then ''&quot;''
      else if ch = CHR 0x27 then ''&apos;'' else [ch])"

definition escapeXml :: "string \<Rightarrow> string" where
  "escapeXml s = concat (map escapeXml_char s)"

text \<open>The line feed and the double quote of the template literals.\<close>

definition nl :: string where
  "nl = [CHR 0x0A]"

definition dq :: string where
  "dq = [CHR 0x22]"

subsection \<open>Speech synthesis with strict container validation\<close>

text \<open>
  \<^verbatim>\<open>buf.slice(a, b)\<close> for \<open>0 \<le> a \<le> b\<close>, and \<^verbatim>\<open>buf.toString('ascii')\<close>. Node decodes
  \<^verbatim>\<open>'ascii'\<close> by clearing the highest bit of every byte and reading the result as Latin-1.
\<close>

definition buf_slice :: "nat \<Rightarrow> nat \<Rightarrow> byte list \<Rightarrow> byte list" where
  "buf_slice a b buf = take (b - a) (drop a buf)"

definition toString_ascii :: "byte list \<Rightarrow> string" where
  "toString_ascii buf = map (\<lambda>b. char_of (unat (b AND 0x7F))) buf"

definition looksLikeWav :: "byte list \<Rightarrow> bool" where
  "looksLikeWav buf =
     (length buf \<ge> 12 \<and>
      toString_ascii (buf_slice 0 4 buf) = ''RIFF'' \<and>
      toString_ascii (buf_slice 8 12 buf) = ''WAVE'')"

text \<open>
  \<^verbatim>\<open>synthesizeWavStrict\<close>, from the answer of the \<^verbatim>\<open>fetch\<close> to the speech endpoint on: the
  arguments \<^verbatim>\<open>apiKey\<close>, \<^verbatim>\<open>text\<close>, \<^verbatim>\<open>model\<close> and \<^verbatim>\<open>voice\<close> only shape the request.
\<close>

definition synthesizeWavStrict :: "error + response \<Rightarrow> error + byte list" where
  "synthesizeWavStrict answer =
     (case answer of
        Inl e \<Rightarrow> Inl e
      | Inr r \<Rightarrow>
          let ct = toLowerCase (case content_type r of None \<Rightarrow> [] | Some c \<Rightarrow> c);
              buf = bytes r
          in if \<not> ok r then Inl (TtsErrorStatus (http_status r))
             else if \<not> str_includes ct ''audio'' then Inl TtsNonAudio
             else if \<not> looksLikeWav buf then Inl TtsNotWav
             else Inr buf)"

subsection \<open>Call control: redirecting the live call\<close>

text \<open>The markup of \<^verbatim>\<open>redirectCallToPlay\<close>: the template literal, then \<^verbatim>\<open>.trim()\<close>.\<close>

definition redirect_twiml :: "string \<Rightarrow> string \<Rightarrow> string" where
  "redirect_twiml h audioUrl =
     js_trim (nl @ ''    <Response>'' @ nl @
       ''      <Play>'' @ audioUrl @ ''</Play>'' @ nl @
       ''      <Redirect method='' @ dq @ ''POST'' @ dq @ ''>https://'' @ h @
         ''/twilio/voice</Redirect>'' @ nl @
       ''    </Response>'' @ nl @ ''  '')"

text \<open>The request that \<^verbatim>\<open>redirectCallToPlay\<close> posts: its URL and its \<^verbatim>\<open>Twiml\<close> form field.\<close>

record twilio_post =
  post_url :: string
  post_twiml :: string

definition redirect_request :: "string \<Rightarrow> string \<Rightarrow> string \<Rightarrow> string \<Rightarrow> twilio_post" where
  "redirect_request h acct callSid audioUrl =
     \<lparr>post_url = ''https://api.twilio.com/2010-04-01/Accounts/'' @ acct @ ''/Calls/'' @
                   callSid @ ''.json'',
      post_twiml = redirect_twiml h audioUrl\<rparr>"

text \<open>
  \<^verbatim>\<open>redirectCallToPlay\<close>, from the answer of its \<^verbatim>\<open>fetch\<close> on. The caller's \<^verbatim>\<open>resumeUrl\<close> is not
  among the parameters that the function destructures, so it has no place here either.
\<close>

definition redirectCallToPlay :: "error + response \<Rightarrow> error + unit" where
  "redirectCallToPlay answer =
     (case answer of
        Inl e \<Rightarrow> Inl e
      | Inr r \<Rightarrow> if \<not> ok r then Inl (TwilioRedirectError (http_status r)) else Inr ())"

subsection \<open>Dedup gate\<close>

record dedup_entry =
  etext :: string
  ts :: int

text \<open>
  \<^verbatim>\<open>shouldProcess\<close>, with \<^verbatim>\<open>Date.now()\<close> as the argument \<open>now\<close> and the map \<^verbatim>\<open>recentByCall\<close>
  passed in and returned.
\<close>

definition shouldProcess ::
  "int \<Rightarrow> (string \<rightharpoonup> dedup_entry) \<Rightarrow> string \<Rightarrow> string \<Rightarrow> bool \<times> (string \<rightharpoonup> dedup_entry)"
where
  "shouldProcess now recent callSid text =
     (case recent callSid of
        Some prev \<Rightarrow>
          if etext prev = text \<and> now - ts prev < 5000 then (False, recent)
          else (True, recent(callSid \<mapsto> \<lparr>etext = text, ts = now\<rparr>))
      | None \<Rightarrow> (True, recent(callSid \<mapsto> \<lparr>etext = text, ts = now\<rparr>)))"

subsection \<open>Process state and storage\<close>

text \<open>
  The process-wide mutable state: the set \<^verbatim>\<open>greeted\<close>, the map \<^verbatim>\<open>recentByCall\<close>, and the
  audio directory as a map from file names to contents.
\<close>

record state =
  greeted :: "string set"
  recentByCall :: "string \<rightharpoonup> dedup_entry"
  audio :: "string \<rightharpoonup> byte list"

text \<open>
  \<^verbatim>\<open>saveWav\<close>. The argument \<open>fresh\<close> is what the file system and the identifier generator give:
  \<open>Inr\<close> the fresh identifier (clock and random bytes), or \<open>Inl\<close> when the write raises. The
  buffer always is a \<^verbatim>\<open>Buffer\<close> here, so the argument check never raises.
\<close>

definition saveWav :: "state \<Rightarrow> error + string \<Rightarrow> byte list \<Rightarrow> error + (string \<times> state)" where
  "saveWav st fresh buffer =
     (case fresh of
        Inl e \<Rightarrow> Inl e
      | Inr ident \<Rightarrow> Inr (ident, st\<lparr>audio := (audio st)(ident @ ''.wav'' \<mapsto> buffer)\<rparr>))"

definition hasGreeting :: "state \<Rightarrow> bool" where
  "hasGreeting st = (audio st ''greeting.wav'' \<noteq> None)"

text \<open>\<^verbatim>\<open>saveGreeting\<close>; \<open>write_error\<close> is \<open>Some\<close> when the write raises.\<close>

definition saveGreeting :: "state \<Rightarrow> error option \<Rightarrow> byte list \<Rightarrow> error + state" where
  "saveGreeting st write_error buffer =
     (case write_error of
        Some e \<Rightarrow> Inl e
      | None \<Rightarrow> Inr (st\<lparr>audio := (audio st)(''greeting.wav'' \<mapsto> buffer)\<rparr>))"

subsection \<open>Finalizing an utterance\<close>

text \<open>
  The answers of the outside world to one run of \<^verbatim>\<open>finalizeUtterance\<close>: the clock read by the
  dedup gate, the result of \<^verbatim>\<open>chatReply\<close> (taken whole: its reply text, or that it raises), the
  answer of the speech endpoint, the outcome of the storage step and the answer of the
  call-control endpoint.
\<close>

record finalize_io =
  clock :: int
  chat_answer :: "error + string"
  speech_answer :: "error + response"
  wav_id :: "error + string"
  twilio_answer :: "error + response"

text \<open>The downstream calls that a run starts, in order, with what they are given.\<close>

datatype call =
    ChatCall string
  | SpeechCall string
  | SaveCall "byte list"
  | RedirectCall twilio_post

definition finalizeUtterance ::
  "config \<Rightarrow> finalize_io \<Rightarrow> state \<Rightarrow> string \<Rightarrow> string \<Rightarrow> state \<times> call list \<times> (error + unit)"
where
  "finalizeUtterance cfg io st callSid text =
     (if js_trim text = [] then (st, [], Inr ())
      else
        case shouldProcess (clock io) (recentByCall st) callSid text of
          (False, _) \<Rightarrow> (st, [], Inr ())
        | (True, recent') \<Rightarrow>
            let st1 = st\<lparr>recentByCall := recent'\<rparr> in
            case chat_answer io of
              Inl e \<Rightarrow> (st1, [ChatCall text], Inl e)
            | Inr reply \<Rightarrow>
                let assistantText =
                      take (if max_response_chars cfg = 0 then 600 else max_response_chars cfg) reply
                in
                case synthesizeWavStrict (speech_answer io) of
                  Inl e \<Rightarrow> (st1, [ChatCall text, SpeechCall assistantText], Inl e)
                | Inr wavBuf \<Rightarrow>
                    case saveWav st1 (wav_id io) wavBuf of
                      Inl e \<Rightarrow>
                        (st1, [ChatCall text, SpeechCall assistantText, SaveCall wavBuf], Inl e)
                    | Inr (ident, st2) \<Rightarrow>
                        let playUrl = absoluteUrl (host cfg) (''/audio/'' @ ident @ ''.wav'');
                            resumeUrl = absoluteUrl (host cfg) ''/twilio/resume'';
                            calls = [ChatCall text, SpeechCall assistantText, SaveCall wavBuf,
                                     RedirectCall
                                       (redirect_request (host cfg) (accountSid cfg) callSid playUrl)]
                        in
                        case redirectCallToPlay (twilio_answer io) of
                          Inl e \<Rightarrow> (st2, calls, Inl e)
                        | Inr _ \<Rightarrow> (st2, calls, Inr ()))"

subsection \<open>Signature verifier\<close>

text \<open>
  \<^verbatim>\<open>Buffer.from(s)\<close> encodes a string as UTF-8: a code unit below 128 is one byte, a code unit
  from 128 to 255 is two.
\<close>

definition utf8_char :: "char \<Rightarrow> byte list" where
  "utf8_char c =
     (let n = (of_char c :: nat)
      in if n < 128 then [of_nat n] else [of_nat (192 + n div 64), of_nat (128 + n mod 64)])"

definition Buffer_from :: "string \<Rightarrow> byte list" where
  "Buffer_from s = concat (map utf8_char s)"

text \<open>\<^verbatim>\<open>crypto.timingSafeEqual\<close> raises on buffers of different lengths (\<open>None\<close>).\<close>

definition timingSafeEqual :: "byte list \<Rightarrow> byte list \<Rightarrow> bool option" where
  "timingSafeEqual a b = (if length a \<noteq> length b then None else Some (a = b))"

text \<open>\<open>k + body[k]\<close> for a key \<open>k\<close> of the body.\<close>

definition key_value :: "form \<Rightarrow> string \<Rightarrow> string" where
  "key_value b k = k @ (case map_of b k of Some v \<Rightarrow> js_String v | None \<Rightarrow> ''undefined'')"

text \<open>\<^verbatim>\<open>headers['x-twilio-signature'] || headers['X-Twilio-Signature']\<close>\<close>

definition signature_header :: "(string \<rightharpoonup> string) \<Rightarrow> string option" where
  "signature_header hdrs =
     (case hdrs ''x-twilio-signature'' of
        Some s \<Rightarrow> if s \<noteq> [] then Some s else hdrs ''X-Twilio-Signature''
      | None \<Rightarrow> hdrs ''X-Twilio-Signature'')"

text \<open>
  \<^verbatim>\<open>validateTwilioSignature\<close>. The keyed hash of the \<^verbatim>\<open>crypto\<close> module is the parameter \<open>hmac\<close>:
  \<open>hmac key msg\<close> is the base64 text of the HMAC-SHA1 of the UTF-8 bytes of \<open>msg\<close> under
  \<open>key\<close>. An argument that may be undefined is an option.
\<close>

definition validateTwilioSignature ::
  "(string \<Rightarrow> string \<Rightarrow> string) \<Rightarrow> bool \<Rightarrow> string option \<Rightarrow> string option \<Rightarrow>
   (string \<rightharpoonup> string) \<Rightarrow> form option \<Rightarrow> bool"
where
  "validateTwilioSignature hmac enabled token url hdrs fbody =
     (if \<not> enabled then True
      else
        let sigHeader = signature_header hdrs in
        case (sigHeader, token, url) of
          (Some sig, Some tok, Some u) \<Rightarrow>
            if sig = [] \<or> tok = [] \<or> u = [] then False
            else
              let params = (case fbody of
                              Some b \<Rightarrow> map (key_value b) (sort (map fst b))
                            | None \<Rightarrow> []);
                  toSign = u @ concat params;
                  computed = hmac tok toSign;
                  a = Buffer_from computed;
                  b = Buffer_from sig
              in length a = length b \<and> timingSafeEqual a b = Some True
        | _ \<Rightarrow> False)"

subsection \<open>Call-start and resume webhooks\<close>

record request =
  headers :: "string \<rightharpoonup> string"
  form_body :: "form option"
  raw_url :: string

record reply =
  code :: nat
  ctype :: string
  payload :: string

definition buildTranscriptionAttrs :: "config \<Rightarrow> string \<Rightarrow> string" where
  "buildTranscriptionAttrs cfg callbackUrl =
     ''statusCallbackUrl='' @ dq @ escapeXml callbackUrl @ dq @ nl @
     ''          languageCode='' @ dq @ escapeXml (or_default (language cfg) ''en-US'') @ dq @ nl @
     ''          track='' @ dq @ ''inbound_track'' @ dq @ nl @
     ''          transcriptionEngine='' @ dq @ ''google'' @ dq @ nl @
     ''          partialResults='' @ dq @ ''false'' @ dq"

text \<open>The markup of the call-start webhook around its greeting block.\<close>

definition voice_twiml :: "string \<Rightarrow> string \<Rightarrow> string" where
  "voice_twiml greetingBlock transcriptionAttrs =
     js_trim (nl @ ''      <Response>'' @ nl @
       ''        '' @ greetingBlock @ nl @
       ''        <Start>'' @ nl @
       ''          <Transcription '' @ transcriptionAttrs @ '' />'' @ nl @
       ''        </Start>'' @ nl @
       ''        <Pause length='' @ dq @ ''60'' @ dq @ ''/>'' @ nl @
       ''      </Response>'' @ nl @ ''    '')"

definition resume_twiml :: "string \<Rightarrow> string" where
  "resume_twiml transcriptionAttrs =
     js_trim (nl @ ''      <Response>'' @ nl @
       ''        <Start>'' @ nl @
       ''          <Transcription '' @ transcriptionAttrs @ '' />'' @ nl @
       ''        </Start>'' @ nl @
       ''        <Pause length='' @ dq @ ''60'' @ dq @ ''/>'' @ nl @
       ''      </Response>'' @ nl @ ''    '')"

text \<open>
  The answers of the outside world to one call-start webhook: the answer of the speech
  endpoint and the outcome of writing the greeting file, both used only when the greeting
  file is missing.
\<close>

record voice_io =
  greeting_speech :: "error + response"
  greeting_write :: "error option"

definition ensureGreetingWav :: "config \<Rightarrow> voice_io \<Rightarrow> state \<Rightarrow> (error + string) \<times> state" where
  "ensureGreetingWav cfg io st =
     (if \<not> hasGreeting st then
        case synthesizeWavStrict (greeting_speech io) of
          Inl e \<Rightarrow> (Inl e, st)
        | Inr wavBuf \<Rightarrow>
            (case saveGreeting st (greeting_write io) wavBuf of
               Inl e \<Rightarrow> (Inl e, st)
             | Inr st' \<Rightarrow> (Inr (absoluteUrl (host cfg) ''/audio/greeting.wav''), st'))
      else (Inr (absoluteUrl (host cfg) ''/audio/greeting.wav''), st))"

text \<open>\<^verbatim>\<open>(req.body?.CallSid || req.body?.callSid || '').toString()\<close>\<close>

definition call_sid_of :: "form option \<Rightarrow> string" where
  "call_sid_of fbody =
     (case fbody of
        None \<Rightarrow> []
      | Some b \<Rightarrow>
          (case map_of b ''CallSid'' of
             Some v \<Rightarrow>
               if truthy v then js_String v
               else (case map_of b ''callSid'' of
                       Some w \<Rightarrow> if truthy w then js_String w else []
                     | None \<Rightarrow> [])
           | None \<Rightarrow>
               (case map_of b ''callSid'' of
                  Some w \<Rightarrow> if truthy w then js_String w else []
                | None \<Rightarrow> [])))"

definition signature_rejected ::
  "(string \<Rightarrow> string \<Rightarrow> string) \<Rightarrow> config \<Rightarrow> request \<Rightarrow> bool"
where
  "signature_rejected hmac cfg req =
     (validateSignature cfg \<and>
      \<not> validateTwilioSignature hmac True (authToken cfg)
          (Some (absoluteUrl (host cfg) (raw_url req))) (headers req) (form_body req))"

text \<open>The greeting block of the call-start webhook and the state after building it.\<close>

definition greeting_block :: "config \<Rightarrow> voice_io \<Rightarrow> state \<Rightarrow> bool \<Rightarrow> string \<times> state" where
  "greeting_block cfg io st shouldPlayGreeting =
     (if shouldPlayGreeting then
        case ensureGreetingWav cfg io st of
          (Inr greetingUrl, st') \<Rightarrow> (''<Play>'' @ escapeXml greetingUrl @ ''</Play>'', st')
        | (Inl e, st') \<Rightarrow>
            (''<Say>'' @ escapeXml (or_default (greeting cfg) ''Hello! How can I help?'') @
             ''</Say>'', st')
      else ([], st))"

text \<open>\<^verbatim>\<open>POST /twilio/voice\<close>\<close>

definition twilio_voice ::
  "(string \<Rightarrow> string \<Rightarrow> string) \<Rightarrow> config \<Rightarrow> voice_io \<Rightarrow> state \<Rightarrow> request \<Rightarrow> state \<times> reply"
where
  "twilio_voice hmac cfg io st req =
     (if signature_rejected hmac cfg req
      then (st, \<lparr>code = 403, ctype = ''text/plain'', payload = ''Invalid Twilio signature''\<rparr>)
      else
        let callSid = call_sid_of (form_body req);
            transcriptionCallback = absoluteUrl (host cfg) ''/twilio/transcription'';
            transcriptionAttrs = buildTranscriptionAttrs cfg transcriptionCallback;
            shouldPlayGreeting = (callSid \<noteq> [] \<and> callSid \<notin> greeted st);
            st1 = (if shouldPlayGreeting then st\<lparr>greeted := insert callSid (greeted st)\<rparr> else st);
            (greetingBlock, st2) = greeting_block cfg io st1 shouldPlayGreeting
        in (st2, \<lparr>code = 200, ctype = ''text/xml'',
                  payload = voice_twiml greetingBlock transcriptionAttrs\<rparr>))"

text \<open>\<^verbatim>\<open>POST /twilio/resume\<close>\<close>

definition twilio_resume ::
  "(string \<Rightarrow> string \<Rightarrow> string) \<Rightarrow> config \<Rightarrow> state \<Rightarrow> request \<Rightarrow> state \<times> reply"
where
  "twilio_resume hmac cfg st req =
     (if signature_rejected hmac cfg req
      then (st, \<lparr>code = 403, ctype = ''text/plain'', payload = ''Invalid Twilio signature''\<rparr>)
      else
        let transcriptionCallback = absoluteUrl (host cfg) ''/twilio/transcription'';
            transcriptionAttrs = buildTranscriptionAttrs cfg transcriptionCallback
        in (st, \<lparr>code = 200, ctype = ''text/xml'', payload = resume_twiml transcriptionAttrs\<rparr>))"

text \<open>A sequence of call-start webhooks, handled one after the other.\<close>

fun run_voice ::
  "(string \<Rightarrow> string \<Rightarrow> string) \<Rightarrow> config \<Rightarrow> state \<Rightarrow> (voice_io \<times> request) list \<Rightarrow>
   state \<times> reply list"
where
  "run_voice hmac cfg st [] = (st, [])"
| "run_voice hmac cfg st ((io, req) # evs) =
     (let (st1, r) = twilio_voice hmac cfg io st req;
          (st2, rs) = run_voice hmac cfg st1 evs
      in (st2, r # rs))"

subsection \<open>Audio retrieval endpoint\<close>

text \<open>
  A non-negative integer in a template literal is rendered in decimal, and
  \<^verbatim>\<open>parseInt(s, 10)\<close> on a non-empty string of decimal digits is the number it writes. (Numbers
  are doubles: both are exact below \<open>2^53\<close>, which covers every position inside a file.)
\<close>

definition digit_char :: "nat \<Rightarrow> char" where
  "digit_char d = char_of (48 + d)"

function show_nat :: "nat \<Rightarrow> string" where
  "show_nat n = (if n < 10 then [digit_char n] else show_nat (n div 10) @ [digit_char (n mod 10)])"
  by pat_completeness auto
termination
  by (relation "measure id") auto

declare show_nat.simps [simp del]

definition is_digit :: "char \<Rightarrow> bool" where
  "is_digit c = (48 \<le> (of_char c :: nat) \<and> (of_char c :: nat) \<le> 57)"

definition parseInt10 :: "string \<Rightarrow> nat" where
  "parseInt10 s = foldl (\<lambda>a c. 10 * a + (of_char c - 48)) 0 s"

text \<open>
  \<^verbatim>\<open>/^bytes=(\d*)-(\d*)$/.exec(range)\<close>: the two groups of a match. The first group is the
  longest run of digits after \<open>bytes=\<close>; a hyphen must follow, and only digits after it.
\<close>

definition match_range :: "string \<Rightarrow> (string \<times> string) option" where
  "match_range s =
     (if startsWith s ''bytes='' then
        let rest = drop 6 s;
            m1 = takeWhile is_digit rest
        in (case dropWhile is_digit rest of
              [] \<Rightarrow> None
            | c # m2 \<Rightarrow> if c = CHR ''-'' \<and> list_all is_digit m2 then Some (m1, m2) else None)
      else None)"

text \<open>
  A request to \<^verbatim>\<open>/audio/:file\<close>: the route parameter, whether the method is \<^verbatim>\<open>HEAD\<close>, and the
  \<^verbatim>\<open>Range\<close> header. The reply is what reaches the client: the status, the headers written
  from the reply object, and the bytes of the body.
\<close>

record audio_request =
  file_name :: "string option"
  is_head :: bool
  range :: "string option"

record audio_reply =
  status_code :: nat
  reply_headers :: "string \<rightharpoonup> string"
  reply_body :: "byte list"

text \<open>
  A reply that the handler ends with \<^verbatim>\<open>reply.send()\<close>: the status and the headers set on the
  reply object with \<^verbatim>\<open>reply.header()\<close> and \<^verbatim>\<open>reply.type()\<close> are written with the body.
\<close>

definition sent_reply :: "nat \<Rightarrow> (string \<rightharpoonup> string) \<Rightarrow> byte list \<Rightarrow> audio_reply" where
  "sent_reply c hs b = \<lparr>status_code = c, reply_headers = hs, reply_body = b\<rparr>"

text \<open>
  A reply whose body the handler pipes into \<^verbatim>\<open>reply.raw\<close> with \<^verbatim>\<open>pump\<close>, without \<^verbatim>\<open>reply.send()\<close>:
  \<^verbatim>\<open>reply.code()\<close> has put the status on the raw response, but the headers \<open>hs\<close> set with
  \<^verbatim>\<open>reply.header()\<close> stay on the reply object and are never written.
\<close>

definition piped_reply :: "nat \<Rightarrow> (string \<rightharpoonup> string) \<Rightarrow> byte list \<Rightarrow> audio_reply" where
  "piped_reply c hs b = \<lparr>status_code = c, reply_headers = Map.empty, reply_body = b\<rparr>"

definition text_reply :: "nat \<Rightarrow> string \<Rightarrow> audio_reply" where
  "text_reply c msg = sent_reply c [''Content-Type'' \<mapsto> ''text/plain''] (Buffer_from msg)"

definition wav_headers :: "string \<rightharpoonup> string" where
  "wav_headers =
     [''Accept-Ranges'' \<mapsto> ''bytes'', ''Cache-Control'' \<mapsto> ''public, max-age=0'',
      ''Content-Type'' \<mapsto> ''audio/wav'']"

text \<open>\<^verbatim>\<open>GET\<close> and \<^verbatim>\<open>HEAD /audio/:file\<close>, on the audio directory of the state.\<close>

definition audio_handler :: "state \<Rightarrow> audio_request \<Rightarrow> audio_reply" where
  "audio_handler st req =
     (case file_name req of
        None \<Rightarrow> text_reply 400 ''Bad request''
      | Some f \<Rightarrow>
          if f = [] \<or> \<not> endsWith f ''.wav'' \<or> str_includes f ''..''
          then text_reply 400 ''Bad request''
          else
            (case audio st f of
               None \<Rightarrow> text_reply 404 ''Not found''
             | Some content \<Rightarrow>
                 let total = int (length content) in
                 if is_head req then
                   sent_reply 200 (wav_headers(''Content-Length'' \<mapsto> show_nat (nat total))) []
                 else
                   (case (case range req of
                            None \<Rightarrow> None
                          | Some r \<Rightarrow> if r = [] then None else match_range r) of
                      Some (m1, m2) \<Rightarrow>
                        let start = (if m1 \<noteq> [] then int (parseInt10 m1) else 0);
                            endp = (if m2 \<noteq> [] then int (parseInt10 m2) else total - 1)
                        in if start > endp \<or> endp \<ge> total then
                             sent_reply 416
                               (wav_headers(''Content-Range'' \<mapsto> ''bytes */'' @ show_nat (nat total)))
                               []
                           else
                             piped_reply 206
                               (wav_headers
                                  (''Content-Range'' \<mapsto>
                                     ''bytes '' @ show_nat (nat start) @ ''-'' @ show_nat (nat endp) @
                                     ''/'' @ show_nat (nat total),
                                   ''Content-Length'' \<mapsto> show_nat (nat (endp - start + 1))))
                               (take (nat (endp - start + 1)) (drop (nat start) content))
                    | None \<Rightarrow>
                        piped_reply 200
                          (wav_headers(''Content-Length'' \<mapsto> show_nat (nat total)))
                          content)))"

subsection \<open>Event classifier: transcript text\<close>

text \<open>
  A value that \<^verbatim>\<open>JSON.parse\<close> returns. A number is kept as its rendering by
  \<^verbatim>\<open>Number.prototype.toString\<close> (zero, also negative zero, renders as \<open>0\<close>); an object is the
  list of its properties.
\<close>

datatype json =
    JNull
  | JBool bool
  | JNum string
  | JStr string
  | JArr "json list"
  | JObj "(string \<times> json) list"

text \<open>Truthiness of a parsed value.\<close>

fun json_truthy :: "json \<Rightarrow> bool" where
  "json_truthy JNull = False"
| "json_truthy (JBool b) = b"
| "json_truthy (JNum r) = (r \<noteq> ''0'')"
| "json_truthy (JStr s) = (s \<noteq> [])"
| "json_truthy (JArr xs) = True"
| "json_truthy (JObj kvs) = True"

datatype type_error = TypeError

text \<open>
  \<^verbatim>\<open>v.toString()\<close> of a parsed value, which is also how an array renders its elements: an
  array joins the strings of its elements with commas, a null element giving the empty
  string; an object gives \<open>[object Object]\<close>, unless it has a property \<open>toString\<close> of its own,
  which is never a function in parsed JSON, so that the conversion raises a \<^verbatim>\<open>TypeError\<close>.
\<close>

fun json_String :: "json \<Rightarrow> type_error + string"
  and json_join :: "json list \<Rightarrow> type_error + string"
where
  "json_String JNull = Inr ''null''"
| "json_String (JBool b) = Inr (if b then ''true'' else ''false'')"
| "json_String (JNum r) = Inr r"
| "json_String (JStr s) = Inr s"
| "json_String (JArr xs) = json_join xs"
| "json_String (JObj kvs) =
     (if map_of kvs ''toString'' = None then Inr ''[object Object]'' else Inl TypeError)"
| "json_join [] = Inr []"
| "json_join (x # xs) =
     (case (if x = JNull then Inr [] else json_String x) of
        Inl e \<Rightarrow> Inl e
      | Inr s \<Rightarrow>
          if xs = [] then Inr s
          else (case json_join xs of Inl e \<Rightarrow> Inl e | Inr t \<Rightarrow> Inr (s @ '','' @ t)))"

text \<open>
  \<open>obj.k\<close> on a parsed value: \<open>Inl\<close> is the \<^verbatim>\<open>TypeError\<close> of a property read on null, \<open>None\<close> is
  \<^verbatim>\<open>undefined\<close>. Only an object has properties of these names.
\<close>

fun json_get :: "json \<Rightarrow> string \<Rightarrow> type_error + json option" where
  "json_get JNull k = Inl TypeError"
| "json_get (JObj kvs) k = Inr (map_of kvs k)"
| "json_get v k = Inr None"

text \<open>\<^verbatim>\<open>(obj.transcript || obj.Transcript || '').toString()\<close>, inside the \<^verbatim>\<open>try\<close>.\<close>

definition transcript_of :: "json \<Rightarrow> type_error + string" where
  "transcript_of obj =
     (case json_get obj ''transcript'' of
        Inl e \<Rightarrow> Inl e
      | Inr a \<Rightarrow>
          (case a of
             Some v \<Rightarrow>
               if json_truthy v then json_String v
               else (case json_get obj ''Transcript'' of
                       Inl e \<Rightarrow> Inl e
                     | Inr (Some w) \<Rightarrow> if json_truthy w then json_String w else Inr []
                     | Inr None \<Rightarrow> Inr [])
           | None \<Rightarrow>
               (case json_get obj ''Transcript'' of
                  Inl e \<Rightarrow> Inl e
                | Inr (Some w) \<Rightarrow> if json_truthy w then json_String w else Inr []
                | Inr None \<Rightarrow> Inr [])))"

text \<open>
  \<^verbatim>\<open>parseTranscriptionData\<close>. The parameter \<open>parse\<close> is \<^verbatim>\<open>JSON.parse\<close>: \<open>None\<close> when it raises a
  \<^verbatim>\<open>SyntaxError\<close>. Every exception inside the \<^verbatim>\<open>try\<close> gives the empty text.
\<close>

definition parseTranscriptionData :: "(string \<Rightarrow> json option) \<Rightarrow> form \<Rightarrow> string" where
  "parseTranscriptionData parse body =
     (let td = pick body [''TranscriptionData'', ''transcriptionData'']
      in if td \<noteq> [] then
           (case parse td of
              None \<Rightarrow> []
            | Some obj \<Rightarrow> (case transcript_of obj of Inl e \<Rightarrow> [] | Inr s \<Rightarrow> s))
         else pick body [''TranscriptionText'', ''SpeechResult'', ''utterance'', ''transcript'', ''text''])"

subsection \<open>Observations on markup and downstream calls\<close>

text \<open>The number of chat requests among the downstream calls of a run.\<close>

fun chat_calls :: "call list \<Rightarrow> nat" where
  "chat_calls [] = 0"
| "chat_calls (ChatCall u # cs) = Suc (chat_calls cs)"
| "chat_calls (_ # cs) = chat_calls cs"

text \<open>
  The attributes of the transcription element and the two greeting blocks that the
  call-start webhook can build: the \<^verbatim>\<open>Play\<close> of the greeting file, or the \<^verbatim>\<open>Say\<close> fallback.
\<close>

definition voice_attrs :: "config \<Rightarrow> string" where
  "voice_attrs cfg = buildTranscriptionAttrs cfg (absoluteUrl (host cfg) ''/twilio/transcription'')"

definition play_block :: "config \<Rightarrow> string" where
  "play_block cfg = ''<Play>'' @ escapeXml (absoluteUrl (host cfg) ''/audio/greeting.wav'') @ ''</Play>''"

definition say_block :: "config \<Rightarrow> string" where
  "say_block cfg =
     ''<Say>'' @ escapeXml (or_default (greeting cfg) ''Hello! How can I help?'') @ ''</Say>''"

text \<open>A reply carries a greeting block, or is the call-start markup with an empty one.\<close>

definition has_greeting_block :: "config \<Rightarrow> reply \<Rightarrow> bool" where
  "has_greeting_block cfg r =
     (payload r = voice_twiml (play_block cfg) (voice_attrs cfg) \<or>
      payload r = voice_twiml (say_block cfg) (voice_attrs cfg))"

definition no_greeting_block :: "config \<Rightarrow> reply \<Rightarrow> bool" where
  "no_greeting_block cfg r = (payload r = voice_twiml [] (voice_attrs cfg))"

text \<open>
  The two replies that a call-start webhook can give without greeting: the rejection of an
  invalid signature, and the call-start markup around an empty greeting block. A markup
  names a greeting element when the text \<open><Play>\<close> or \<open><Say>\<close> occurs in it.
\<close>

definition rejected_reply :: reply where
  "rejected_reply = \<lparr>code = 403, ctype = ''text/plain'', payload = ''Invalid Twilio signature''\<rparr>"

definition no_greeting_reply :: "config \<Rightarrow> reply" where
  "no_greeting_reply cfg =
     \<lparr>code = 200, ctype = ''text/xml'', payload = voice_twiml [] (voice_attrs cfg)\<rparr>"

definition names_greeting_element :: "string \<Rightarrow> bool" where
  "names_greeting_element markup = (str_includes markup ''<Play>'' \<or> str_includes markup ''<Say>'')"

text \<open>
  In a run of call-start webhooks: how many replies to events with identifier \<open>c\<close> carry a
  greeting block, and the identifiers of the events that pass signature verification.
\<close>

definition greetings_for ::
  "config \<Rightarrow> string \<Rightarrow> (voice_io \<times> request) list \<Rightarrow> reply list \<Rightarrow> nat" where
  "greetings_for cfg c evs rs =
     length (filter (\<lambda>(ev, r). call_sid_of (form_body (snd ev)) = c \<and> has_greeting_block cfg r)
               (zip evs rs))"

definition accepted_ids ::
  "(string \<Rightarrow> string \<Rightarrow> string) \<Rightarrow> config \<Rightarrow> (voice_io \<times> request) list \<Rightarrow> string list" where
  "accepted_ids hmac cfg evs =
     map (\<lambda>ev. call_sid_of (form_body (snd ev)))
       (filter (\<lambda>ev. \<not> signature_rejected hmac cfg (snd ev)) evs)"

subsection \<open>Signature verification in the words of the specification\<close>

text \<open>
  A value is absent when it is undefined or the empty string (the falsy strings). The
  canonical string is the URL followed by the form-body keys in lexicographic order of
  their code units, each immediately followed by its value.
\<close>

definition absent :: "string option \<Rightarrow> bool" where
  "absent v = (v = None \<or> v = Some [])"

definition canonical_string :: "string \<Rightarrow> form option \<Rightarrow> string" where
  "canonical_string u fbody =
     u @ (case fbody of
            None \<Rightarrow> []
          | Some b \<Rightarrow> concat (map (key_value b) (sort (map fst b))))"

subsection \<open>Container validation in the words of the specification\<close>

text \<open>
  A valid container is at least 12 bytes long, its first 4 bytes are the ASCII tag \<open>RIFF\<close>
  and its bytes 8 to 12 are the ASCII tag \<open>WAVE\<close>. A byte is 7-bit when its highest bit is
  clear; the tag bytes of a buffer are its bytes 0 to 4 and 8 to 12, as far as it has them.
  The content type of a response is the empty text when the header is missing.
\<close>

definition valid_container :: "byte list \<Rightarrow> bool" where
  "valid_container buf =
     (length buf \<ge> 12 \<and>
      take 4 buf = [0x52, 0x49, 0x46, 0x46] \<and>
      take 4 (drop 8 buf) = [0x57, 0x41, 0x56, 0x45])"




subsection \<open>Transcript extraction in the words of the specification\<close>

text \<open>
  The transcript field under a case-insensitive key lookup, in the words of the
  specification: the value of the first property whose key equals \<open>transcript\<close> up to the
  case of letters.
\<close>

fun ci_lookup :: "(string \<times> json) list \<Rightarrow> string \<Rightarrow> json option" where
  "ci_lookup [] k = None"
| "ci_lookup ((k', v) # kvs) k = (if ci_equal k' k then Some v else ci_lookup kvs k)"

text \<open>
  The transcription-data field of a payload, the plain-text aliases, and the two
  spellings of the key that the code reads: whether a property is present with a truthy
  value, and its text (empty if its conversion raises).
\<close>

definition transcription_data_field :: "form \<Rightarrow> string" where
  "transcription_data_field body = pick body [''TranscriptionData'', ''transcriptionData'']"

definition text_aliases :: "string list" where
  "text_aliases = [''TranscriptionText'', ''SpeechResult'', ''utterance'', ''transcript'', ''text'']"

definition field_truthy :: "(string \<times> json) list \<Rightarrow> string \<Rightarrow> bool" where
  "field_truthy kvs k = (case map_of kvs k of Some v \<Rightarrow> json_truthy v | None \<Rightarrow> False)"

definition field_text :: "(string \<times> json) list \<Rightarrow> string \<Rightarrow> string" where
  "field_text kvs k =
     (case map_of kvs k of
        Some v \<Rightarrow> (case json_String v of Inl e \<Rightarrow> [] | Inr s \<Rightarrow> s)
      | None \<Rightarrow> [])"

fun is_object :: "json \<Rightarrow> bool" where
  "is_object (JObj kvs) = True"
| "is_object v = False"

subsection \<open>Sample inputs\<close>

text \<open>Concrete inputs at which the theorems below are instantiated.\<close>

definition sample_config :: config where
  "sample_config =
     \<lparr>host = ''voice.example.com'', greeting = Some ''Hello! How can I help?'',
      language = Some ''en-US'', validateSignature = False, authToken = Some ''secret'',
      accountSid = ''AC1'', apiKey = ''sk'', chatModel = ''gpt-4.1-mini'',
      ttsModel = Some ''gpt-4o-mini-tts'', voice = Some ''coral'',
      system_prompt = ''You are a helpful, concise, friendly voice assistant.'',
      max_response_chars = 600\<rparr>"

definition sample_wav :: "byte list" where
  "sample_wav = [0x52, 0x49, 0x46, 0x46, 4, 0, 0, 0, 0x57, 0x41, 0x56, 0x45]"

definition sample_state :: state where
  "sample_state = \<lparr>greeted = {}, recentByCall = Map.empty, audio = Map.empty\<rparr>"

definition sample_io :: "int \<Rightarrow> finalize_io" where
  "sample_io now =
     \<lparr>clock = now, chat_answer = Inr ''Hi there'',
      speech_answer = Inr \<lparr>ok = True, http_status = 200, content_type = Some ''audio/wav'',
                            bytes = sample_wav\<rparr>,
      wav_id = Inr ''k1-00ff00ff'',
      twilio_answer = Inr \<lparr>ok = True, http_status = 200, content_type = None, bytes = []\<rparr>\<rparr>"

definition sample_io_redirect_fails :: "int \<Rightarrow> finalize_io" where
  "sample_io_redirect_fails now =
     (sample_io now)\<lparr>twilio_answer :=
        Inr \<lparr>ok = False, http_status = 500, content_type = None, bytes = []\<rparr>\<rparr>"

definition sample_hmac :: "string \<Rightarrow> string \<Rightarrow> string" where
  "sample_hmac key msg = key @ ''|'' @ msg"

definition sample_voice_io :: voice_io where
  "sample_voice_io =
     \<lparr>greeting_speech = Inr \<lparr>ok = True, http_status = 200, content_type = Some ''audio/wav'',
                              bytes = sample_wav\<rparr>,
      greeting_write = None\<rparr>"

definition sample_request :: "form \<Rightarrow> request" where
  "sample_request b = \<lparr>headers = Map.empty, form_body = Some b, raw_url = ''/twilio/voice''\<rparr>"

definition sample_events :: "(voice_io \<times> request) list" where
  "sample_events =
     [(sample_voice_io, sample_request [(''CallSid'', FStr ''CA1'')]),
      (sample_voice_io, sample_request [(''CallSid'', FStr ''CA1'')])]"

definition sample_events_no_sid :: "(voice_io \<times> request) list" where
  "sample_events_no_sid =
     [(sample_voice_io, sample_request [(''From'', FStr ''+15550100'')]),
      (sample_voice_io, \<lparr>headers = Map.empty, form_body = None, raw_url = ''/twilio/voice''\<rparr>),
      (sample_voice_io, sample_request [(''CallSid'', FStr '''')])]"

definition sample_state_after_failure :: state where
  "sample_state_after_failure =
     \<lparr>greeted = {}, recentByCall = [''CA1'' \<mapsto> \<lparr>etext = ''hello'', ts = 1000\<rparr>],
      audio = [''k1-00ff00ff.wav'' \<mapsto> sample_wav]\<rparr>"

definition sample_calls :: "call list" where
  "sample_calls =
     [ChatCall ''hello'', SpeechCall ''Hi there'', SaveCall sample_wav,
      RedirectCall
        \<lparr>post_url = ''https://api.twilio.com/2010-04-01/Accounts/AC1/Calls/CA1.json'',
         post_twiml =
           ''<Response>'' @ nl @
           ''      <Play>https://voice.example.com/audio/k1-00ff00ff.wav</Play>'' @ nl @
           ''      <Redirect method='' @ dq @ ''POST'' @ dq @
             ''>https://voice.example.com/twilio/voice</Redirect>'' @ nl @
           ''    </Response>''\<rparr>]"

definition sample_form :: form where
  "sample_form = [(''From'', FStr ''+15550100''), (''CallSid'', FStr ''CA1'')]"

definition sample_url :: string where
  "sample_url = ''https://voice.example.com/twilio/voice''"

definition sample_signed_headers :: "string \<rightharpoonup> string" where
  "sample_signed_headers =
     [''x-twilio-signature'' \<mapsto>
        sample_hmac ''secret'' ''https://voice.example.com/twilio/voiceCallSidCA1From+15550100'']"



definition sample_audio_state :: state where
  "sample_audio_state =
     \<lparr>greeted = {}, recentByCall = Map.empty, audio = [''r1.wav'' \<mapsto> replicate 100 0x55]\<rparr>"

definition sample_range_request :: "string \<Rightarrow> audio_request" where
  "sample_range_request r = \<lparr>file_name = Some ''r1.wav'', is_head = False, range = Some r\<rparr>"

definition sample_transcription_data :: string where
  "sample_transcription_data =
     ''{'' @ dq @ ''TRANSCRIPT'' @ dq @ '':'' @ dq @ ''hi'' @ dq @ ''}''"

definition sample_json_parse :: "string \<Rightarrow> json option" where
  "sample_json_parse =
     map_of [(sample_transcription_data, JObj [(''TRANSCRIPT'', JStr ''hi'')]),
             (''{'' @ dq @ ''transcript'' @ dq @ '':'' @ dq @ ''hello'' @ dq @ ''}'',
              JObj [(''transcript'', JStr ''hello'')])]"

definition sample_transcript_body :: form where
  "sample_transcript_body =
     [(''TranscriptionData'',
       FStr (''{'' @ dq @ ''transcript'' @ dq @ '':'' @ dq @ ''hello'' @ dq @ ''}'')),
      (''text'', FStr ''fallback'')]"

section \<open>Properties\<close>

subsection \<open>Finality classification\<close>

lemma ci_equal_toLowerCase: "ci_equal a b \<longleftrightarrow> toLowerCase a = toLowerCase b"
  unfolding ci_equal_def toLowerCase_def
  by (induction a arbitrary: b) (auto simp: list_all2_Cons1)

lemma ci_contains_toLowerCase:
  "toLowerCase t = t \<Longrightarrow> ci_contains s t \<longleftrightarrow> str_includes (toLowerCase s) t"
proof (induction s)
  case Nil
  then show ?case by (simp add: toLowerCase_def)
next
  case (Cons c cs)
  have "ci_equal (take (length t) (c # cs)) t \<longleftrightarrow> startsWith (toLowerCase (c # cs)) t"
    using Cons.prems
    by (metis ci_equal_toLowerCase startsWith_def take_map toLowerCase_def)
  with Cons show ?case by (simp add: toLowerCase_def)
qed

lemma lower_lits:
  "toLowerCase ''true'' = ''true''" "toLowerCase ''stopped'' = ''stopped''"
  "toLowerCase ''completed'' = ''completed''" "toLowerCase ''final'' = ''final''"
  by (simp_all add: toLowerCase_def lower_char_def)

lemma pick_absent: "\<forall>k\<in>set ks. map_of body k = None \<Longrightarrow> pick body ks = []"
  by (induction ks) auto

text \<open>
  Claim C3. Finality follows the priority order of the specification and defaults to
  not-final: an event is final if its final-flag field equals "true" case-insensitively,
  whatever the other fields hold; otherwise if its event-type field contains "stopped"
  case-insensitively; otherwise if its status field equals "completed" or "final"
  case-insensitively; otherwise it is not final. Each of the three fields is the first
  one present among its aliases. In particular a payload that carries none of the fields
  read for the three signals is not final.
\<close>

theorem isFinalEvent_priority:
  "isFinalEvent body =
     (if ci_equal (final_flag_field body) ''true'' then True
      else if ci_contains (event_type_field body) ''stopped'' then True
      else if ci_equal (status_field body) ''completed'' \<or> ci_equal (status_field body) ''final''
      then True else False)
   \<and> ((\<forall>k\<in>set finality_keys. map_of body k = None) \<longrightarrow> \<not> isFinalEvent body)"
proof
  show "isFinalEvent body =
     (if ci_equal (final_flag_field body) ''true'' then True
      else if ci_contains (event_type_field body) ''stopped'' then True
      else if ci_equal (status_field body) ''completed'' \<or> ci_equal (status_field body) ''final''
      then True else False)"
    by (simp add: isFinalEvent_def Let_def ci_equal_toLowerCase
        ci_contains_toLowerCase lower_lits final_flag_field_def event_type_field_def status_field_def)
  show "(\<forall>k\<in>set finality_keys. map_of body k = None) \<longrightarrow> \<not> isFinalEvent body"
  proof
    assume a: "\<forall>k\<in>set finality_keys. map_of body k = None"
    have "pick body [''Final'', ''final''] = []"
      "pick body [''TranscriptionEvent'', ''event'', ''EventType''] = []"
      "pick body [''TranscriptionStatus'', ''Status''] = []"
      using a by (simp_all add: finality_keys_def)
    then show "\<not> isFinalEvent body"
      by (simp add: isFinalEvent_def toLowerCase_def startsWith_def)
  qed
qed

theorem isFinalEvent_priority_witness:
  "isFinalEvent [(''Final'', FStr ''True''), (''Status'', FStr ''failed'')]
   \<and> isFinalEvent [(''TranscriptionEvent'', FStr ''transcription-Stopped'')]
   \<and> isFinalEvent [(''Final'', FStr ''false''), (''Status'', FStr ''COMPLETED'')]
   \<and> list_all (\<lambda>k. map_of [(''CallSid'', FStr ''CA1'')] k = None) finality_keys
   \<and> \<not> isFinalEvent [(''CallSid'', FStr ''CA1'')]"
proof -
  have a: "ci_equal (final_flag_field [(''Final'', FStr ''True''), (''Status'', FStr ''failed'')]) ''true''"
    by code_simp
  have b: "ci_contains (event_type_field [(''TranscriptionEvent'', FStr ''transcription-Stopped'')]) ''stopped''"
    by code_simp
  have c: "ci_equal (status_field [(''Final'', FStr ''false''), (''Status'', FStr ''COMPLETED'')]) ''completed''"
    by code_simp
  have d: "\<forall>k\<in>set finality_keys. map_of [(''CallSid'', FStr ''CA1'')] k = None"
    by code_simp
  have 1: "isFinalEvent [(''Final'', FStr ''True''), (''Status'', FStr ''failed'')]"
    by (simp only: isFinalEvent_priority [THEN conjunct1] a if_True)
  have 2: "isFinalEvent [(''TranscriptionEvent'', FStr ''transcription-Stopped'')]"
    by (simp only: isFinalEvent_priority [THEN conjunct1] b if_True if_cancel)
  have 3: "isFinalEvent [(''Final'', FStr ''false''), (''Status'', FStr ''COMPLETED'')]"
    by (simp only: isFinalEvent_priority [THEN conjunct1] c if_True if_cancel simp_thms)
  have 4: "\<not> isFinalEvent [(''CallSid'', FStr ''CA1'')]"
    by (rule isFinalEvent_priority [THEN conjunct2, THEN mp, OF d])
  have 5: "list_all (\<lambda>k. map_of [(''CallSid'', FStr ''CA1'')] k = None) finality_keys"
    using d by (simp only: list_all_iff)
  from 1 2 3 5 4 show ?thesis by (intro conjI)
qed

subsection \<open>Markup templates after trimming\<close>

lemma js_trim_core:
  assumes "\<forall>c\<in>set a. is_space c" "\<forall>c\<in>set b. is_space c" "\<not> is_space x" "\<not> is_space y"
  shows "js_trim (a @ x # m @ y # b) = x # m @ [y]"
proof -
  have 1: "dropWhile is_space (a @ x # m @ y # b) = x # m @ y # b"
    using assms(1,3) by (simp add: dropWhile_append3 dropWhile_eq_Nil_conv)
  have 2: "rev (x # m @ y # b) = rev b @ y # rev m @ [x]" by simp
  have 3: "dropWhile is_space (rev b @ y # rev m @ [x]) = y # rev m @ [x]"
    using assms(2,4) by (simp add: dropWhile_append3 dropWhile_eq_Nil_conv)
  show ?thesis by (simp only: js_trim_def 1 2 3) simp
qed

lemma space_facts:
  "\<forall>c\<in>set (nl @ ''      ''). is_space c" "\<forall>c\<in>set (nl @ ''    ''). is_space c"
  "\<forall>c\<in>set (nl @ ''  ''). is_space c"
  "\<not> is_space CHR ''<''" "\<not> is_space CHR ''>''"
  by (simp_all add: is_space_def nl_def)

lemma voice_twiml_trimmed:
  "voice_twiml g a =
     ''<Response>'' @ nl @ ''        '' @ g @ nl @
     ''        <Start>'' @ nl @
     ''          <Transcription '' @ a @ '' />'' @ nl @
     ''        </Start>'' @ nl @
     ''        <Pause length='' @ dq @ ''60'' @ dq @ ''/>'' @ nl @
     ''      </Response>''"
proof -
  define m where "m = ''Response>'' @ nl @ ''        '' @ g @ nl @
     ''        <Start>'' @ nl @
     ''          <Transcription '' @ a @ '' />'' @ nl @
     ''        </Start>'' @ nl @
     ''        <Pause length='' @ dq @ ''60'' @ dq @ ''/>'' @ nl @
     ''      </Response''"
  have "voice_twiml g a = js_trim ((nl @ ''      '') @ CHR ''<'' # m @ CHR ''>'' # (nl @ ''    ''))"
    by (simp add: voice_twiml_def m_def)
  also have "\<dots> = CHR ''<'' # m @ [CHR ''>'']"
    by (rule js_trim_core) (rule space_facts)+
  finally show ?thesis by (simp add: m_def)
qed

lemma resume_twiml_trimmed:
  "resume_twiml a =
     ''<Response>'' @ nl @
     ''        <Start>'' @ nl @
     ''          <Transcription '' @ a @ '' />'' @ nl @
     ''        </Start>'' @ nl @
     ''        <Pause length='' @ dq @ ''60'' @ dq @ ''/>'' @ nl @
     ''      </Response>''"
proof -
  define m where "m = ''Response>'' @ nl @
     ''        <Start>'' @ nl @
     ''          <Transcription '' @ a @ '' />'' @ nl @
     ''        </Start>'' @ nl @
     ''        <Pause length='' @ dq @ ''60'' @ dq @ ''/>'' @ nl @
     ''      </Response''"
  have "resume_twiml a = js_trim ((nl @ ''      '') @ CHR ''<'' # m @ CHR ''>'' # (nl @ ''    ''))"
    by (simp add: resume_twiml_def m_def)
  also have "\<dots> = CHR ''<'' # m @ [CHR ''>'']"
    by (rule js_trim_core) (rule space_facts)+
  finally show ?thesis by (simp add: m_def)
qed

lemma redirect_twiml_trimmed:
  "redirect_twiml h u =
     ''<Response>'' @ nl @
     ''      <Play>'' @ u @ ''</Play>'' @ nl @
     ''      <Redirect method='' @ dq @ ''POST'' @ dq @ ''>https://'' @ h @
       ''/twilio/voice</Redirect>'' @ nl @
     ''    </Response>''"
proof -
  define m where "m = ''Response>'' @ nl @
     ''      <Play>'' @ u @ ''</Play>'' @ nl @
     ''      <Redirect method='' @ dq @ ''POST'' @ dq @ ''>https://'' @ h @
       ''/twilio/voice</Redirect>'' @ nl @
     ''    </Response''"
  have "redirect_twiml h u = js_trim ((nl @ ''    '') @ CHR ''<'' # m @ CHR ''>'' # (nl @ ''  ''))"
    by (simp add: redirect_twiml_def m_def)
  also have "\<dots> = CHR ''<'' # m @ [CHR ''>'']"
    by (rule js_trim_core) (rule space_facts)+
  finally show ?thesis by (simp add: m_def)
qed

lemma voice_twiml_inj: "voice_twiml g a = voice_twiml g' a \<longleftrightarrow> g = g'"
  by (auto simp: voice_twiml_trimmed)

subsection \<open>Dedup gate and finalize\<close>

lemma shouldProcess_False_iff:
  "fst (shouldProcess now recent c t) = False \<longleftrightarrow>
     (\<exists>prev. recent c = Some prev \<and> etext prev = t \<and> now - ts prev < 5000)"
  by (auto simp: shouldProcess_def split: option.splits)

lemma shouldProcess_snd:
  "snd (shouldProcess now recent c t) =
     (if fst (shouldProcess now recent c t) then recent(c \<mapsto> \<lparr>etext = t, ts = now\<rparr>) else recent)"
  by (auto simp: shouldProcess_def split: option.splits)

lemma finalize_suppressed:
  "\<not> fst (shouldProcess (clock io) (recentByCall st) c t) \<Longrightarrow>
   finalizeUtterance cfg io st c t = (st, [], Inr ())"
  by (cases "shouldProcess (clock io) (recentByCall st) c t")
     (simp add: finalizeUtterance_def)

lemma finalize_admitted:
  assumes "js_trim t \<noteq> []" "fst (shouldProcess (clock io) (recentByCall st) c t)"
  shows "\<exists>st' calls res. finalizeUtterance cfg io st c t = (st', calls, res)
           \<and> chat_calls calls = 1
           \<and> recentByCall st' = (recentByCall st)(c \<mapsto> \<lparr>etext = t, ts = clock io\<rparr>)
           \<and> greeted st' = greeted st"
proof -
  obtain r where sp: "shouldProcess (clock io) (recentByCall st) c t = (True, r)"
    using assms(2) by (cases "shouldProcess (clock io) (recentByCall st) c t") auto
  have r: "r = (recentByCall st)(c \<mapsto> \<lparr>etext = t, ts = clock io\<rparr>)"
    using shouldProcess_snd [of "clock io" "recentByCall st" c t] sp by simp
  show ?thesis
    using assms(1) sp r
    by (auto simp: finalizeUtterance_def Let_def saveWav_def split: sum.splits prod.splits)
qed

lemma finalize_failed_admitted:
  assumes "finalizeUtterance cfg io st c t = (st1, calls1, Inl e)"
  shows "js_trim t \<noteq> [] \<and> fst (shouldProcess (clock io) (recentByCall st) c t)"
proof -
  have "js_trim t \<noteq> []" using assms by (auto simp: finalizeUtterance_def)
  moreover have "fst (shouldProcess (clock io) (recentByCall st) c t)"
    using assms finalize_suppressed [of io st c t cfg] by auto
  ultimately show ?thesis by simp
qed

lemma js_trim_hello: "js_trim ''hello'' \<noteq> []"
  by code_simp

lemma sample_wav_looks: "looksLikeWav sample_wav"
  by code_simp

lemma sample_speech_ok:
  "synthesizeWavStrict
     (Inr \<lparr>ok = True, http_status = 200, content_type = Some ''audio/wav'', bytes = sample_wav\<rparr>)
   = Inr sample_wav"
proof -
  have "str_includes (toLowerCase ''audio/wav'') ''audio''" by code_simp
  then show ?thesis by (simp add: synthesizeWavStrict_def sample_wav_looks)
qed

lemma sample_finalize_fails:
  "finalizeUtterance sample_config (sample_io_redirect_fails 1000) sample_state ''CA1'' ''hello''
     = (sample_state_after_failure, sample_calls, Inl (TwilioRedirectError 500))"
  using js_trim_hello
  by (simp add: finalizeUtterance_def sample_io_redirect_fails_def sample_io_def
      sample_speech_ok shouldProcess_def sample_state_def sample_config_def saveWav_def
      redirectCallToPlay_def sample_state_after_failure_def sample_calls_def
      redirect_request_def redirect_twiml_trimmed absoluteUrl_def startsWith_def)

text \<open>
  Claim C2. The dedup gate \<^verbatim>\<open>shouldProcess(callId, text)\<close> returns false if and only if a prior
  entry exists for \<open>callId\<close> with identical text and the elapsed time since that entry is
  strictly below 5000 ms; it stores the new (text, timestamp) entry exactly when it returns
  true and leaves the map alone otherwise. Consequently, when an identical final transcript
  is delivered twice within 5000 ms, the first delivery being admitted, exactly the first
  starts the downstream pipeline (one chat call), the second starts nothing and changes
  nothing, and a third delivery more than 5000 ms after the stored entry starts it again.
\<close>

theorem dedup_gate_window:
  "(fst (shouldProcess now recent c t) = False \<longleftrightarrow>
      (\<exists>prev. recent c = Some prev \<and> etext prev = t \<and> now - ts prev < 5000))
   \<and> snd (shouldProcess now recent c t) =
       (if fst (shouldProcess now recent c t) then recent(c \<mapsto> \<lparr>etext = t, ts = now\<rparr>)
        else recent)
   \<and> (js_trim t \<noteq> [] \<and> fst (shouldProcess (clock io1) (recentByCall st) c t)
        \<and> clock io2 - clock io1 < 5000 \<and> clock io3 - clock io1 > 5000 \<longrightarrow>
       (case finalizeUtterance cfg io1 st c t of (st1, calls1, res1) \<Rightarrow>
        case finalizeUtterance cfg io2 st1 c t of (st2, calls2, res2) \<Rightarrow>
        case finalizeUtterance cfg io3 st2 c t of (st3, calls3, res3) \<Rightarrow>
          chat_calls calls1 = 1 \<and> calls2 = [] \<and> st2 = st1 \<and> chat_calls calls3 = 1))"
proof (intro conjI impI)
  show "fst (shouldProcess now recent c t) = False \<longleftrightarrow>
      (\<exists>prev. recent c = Some prev \<and> etext prev = t \<and> now - ts prev < 5000)"
    by (rule shouldProcess_False_iff)
  show "snd (shouldProcess now recent c t) =
       (if fst (shouldProcess now recent c t) then recent(c \<mapsto> \<lparr>etext = t, ts = now\<rparr>)
        else recent)"
    by (rule shouldProcess_snd)
next
  assume h: "js_trim t \<noteq> [] \<and> fst (shouldProcess (clock io1) (recentByCall st) c t)
        \<and> clock io2 - clock io1 < 5000 \<and> clock io3 - clock io1 > 5000"
  obtain st1 calls1 res1 where f1: "finalizeUtterance cfg io1 st c t = (st1, calls1, res1)"
    and c1: "chat_calls calls1 = 1"
    and r1: "recentByCall st1 = (recentByCall st)(c \<mapsto> \<lparr>etext = t, ts = clock io1\<rparr>)"
    using finalize_admitted [of t io1 st c cfg] h by blast
  have "\<not> fst (shouldProcess (clock io2) (recentByCall st1) c t)"
    using shouldProcess_False_iff [of "clock io2" "recentByCall st1" c t] r1 h by simp
  then have f2: "finalizeUtterance cfg io2 st1 c t = (st1, [], Inr ())"
    by (rule finalize_suppressed)
  have "fst (shouldProcess (clock io3) (recentByCall st1) c t)"
    using shouldProcess_False_iff [of "clock io3" "recentByCall st1" c t] r1 h by simp
  then obtain st3 calls3 res3 where f3: "finalizeUtterance cfg io3 st1 c t = (st3, calls3, res3)"
    and c3: "chat_calls calls3 = 1"
    using finalize_admitted [of t io3 st1 c cfg] h by blast
  show "case finalizeUtterance cfg io1 st c t of (st1, calls1, res1) \<Rightarrow>
        case finalizeUtterance cfg io2 st1 c t of (st2, calls2, res2) \<Rightarrow>
        case finalizeUtterance cfg io3 st2 c t of (st3, calls3, res3) \<Rightarrow>
          chat_calls calls1 = 1 \<and> calls2 = [] \<and> st2 = st1 \<and> chat_calls calls3 = 1"
    by (simp add: f1 f2 f3 c1 c3)
qed

theorem dedup_gate_window_witness:
  "js_trim ''hello'' \<noteq> []
   \<and> fst (shouldProcess (clock (sample_io 1000)) (recentByCall sample_state) ''CA1'' ''hello'')
   \<and> clock (sample_io 3000) - clock (sample_io 1000) < 5000
   \<and> clock (sample_io 7000) - clock (sample_io 1000) > 5000
   \<and> (case finalizeUtterance sample_config (sample_io 1000) sample_state ''CA1'' ''hello'' of
        (st1, calls1, res1) \<Rightarrow>
        case finalizeUtterance sample_config (sample_io 3000) st1 ''CA1'' ''hello'' of
        (st2, calls2, res2) \<Rightarrow>
        case finalizeUtterance sample_config (sample_io 7000) st2 ''CA1'' ''hello'' of
        (st3, calls3, res3) \<Rightarrow>
          chat_calls calls1 = 1 \<and> calls2 = [] \<and> st2 = st1 \<and> chat_calls calls3 = 1)"
proof -
  have h: "js_trim ''hello'' \<noteq> []
     \<and> fst (shouldProcess (clock (sample_io 1000)) (recentByCall sample_state) ''CA1'' ''hello'')
     \<and> clock (sample_io 3000) - clock (sample_io 1000) < 5000
     \<and> clock (sample_io 7000) - clock (sample_io 1000) > 5000"
    using js_trim_hello by (simp add: shouldProcess_def sample_state_def sample_io_def)
  from h dedup_gate_window [where t = "''hello''" and ?io1.0 = "sample_io 1000" and st = sample_state
      and c = "''CA1''" and ?io2.0 = "sample_io 3000" and ?io3.0 = "sample_io 7000"
      and cfg = sample_config, THEN conjunct2, THEN conjunct2, THEN mp, OF h]
  show ?thesis by (intro conjI) (simp_all only: simp_thms)
qed

text \<open>
  Claim C10. When finalize fails after the dedup gate has admitted a (callId, text) pair
  (the chat, synthesis, persist or redirect step raises), the dedup entry for \<open>callId\<close>
  keeps the admitted (text, timestamp), so an identical final transcript redelivered within
  5000 ms of the failed attempt is suppressed and starts no downstream call; the greeted
  set is unchanged by the failure.
\<close>

theorem failed_finalize_keeps_admission:
  "finalizeUtterance cfg io1 st c t = (st1, calls1, Inl e) \<and> clock io2 - clock io1 < 5000 \<longrightarrow>
     recentByCall st1 c = Some \<lparr>etext = t, ts = clock io1\<rparr>
     \<and> greeted st1 = greeted st
     \<and> chat_calls calls1 = 1
     \<and> finalizeUtterance cfg io2 st1 c t = (st1, [], Inr ())"
proof
  assume h: "finalizeUtterance cfg io1 st c t = (st1, calls1, Inl e) \<and> clock io2 - clock io1 < 5000"
  then have f: "finalizeUtterance cfg io1 st c t = (st1, calls1, Inl e)" by simp
  from finalize_failed_admitted [OF f] finalize_admitted [of t io1 st c cfg] f
  have r: "recentByCall st1 = (recentByCall st)(c \<mapsto> \<lparr>etext = t, ts = clock io1\<rparr>)"
    and g: "greeted st1 = greeted st" and n: "chat_calls calls1 = 1"
    by auto
  have "\<not> fst (shouldProcess (clock io2) (recentByCall st1) c t)"
    using shouldProcess_False_iff [of "clock io2" "recentByCall st1" c t] r h by simp
  then have "finalizeUtterance cfg io2 st1 c t = (st1, [], Inr ())"
    by (rule finalize_suppressed)
  with r g n show "recentByCall st1 c = Some \<lparr>etext = t, ts = clock io1\<rparr>
     \<and> greeted st1 = greeted st
     \<and> chat_calls calls1 = 1
     \<and> finalizeUtterance cfg io2 st1 c t = (st1, [], Inr ())"
    by simp
qed

theorem failed_finalize_keeps_admission_witness:
  "finalizeUtterance sample_config (sample_io_redirect_fails 1000) sample_state ''CA1'' ''hello''
     = (sample_state_after_failure, sample_calls, Inl (TwilioRedirectError 500))
   \<and> clock (sample_io 3000) - clock (sample_io_redirect_fails 1000) < 5000
   \<and> recentByCall sample_state_after_failure ''CA1'' = Some \<lparr>etext = ''hello'', ts = 1000\<rparr>
   \<and> greeted sample_state_after_failure = greeted sample_state
   \<and> finalizeUtterance sample_config (sample_io 3000) sample_state_after_failure ''CA1'' ''hello''
       = (sample_state_after_failure, [], Inr ())"
proof -
  have h: "finalizeUtterance sample_config (sample_io_redirect_fails 1000) sample_state ''CA1'' ''hello''
     = (sample_state_after_failure, sample_calls, Inl (TwilioRedirectError 500))
     \<and> clock (sample_io 3000) - clock (sample_io_redirect_fails 1000) < 5000"
    by (simp add: sample_finalize_fails) (simp add: sample_io_def sample_io_redirect_fails_def)
  have k: "clock (sample_io_redirect_fails 1000) = 1000"
    by (simp add: sample_io_def sample_io_redirect_fails_def)
  from failed_finalize_keeps_admission [THEN mp, OF h] h k
  show ?thesis by simp
qed

text \<open>
  Every run that ends without an exception after the gate admitted it posts, as its last
  downstream call, the markup of \<^verbatim>\<open>redirectCallToPlay\<close> for the fresh artifact, whose redirect
  names \<^verbatim>\<open>/twilio/voice\<close> (see \<open>redirect_twiml_trimmed\<close>).
\<close>

lemma finalize_success_redirect:
  assumes "finalizeUtterance cfg io st c t = (st', calls, Inr ())" "calls \<noteq> []"
  shows "\<exists>ident. wav_id io = Inr ident \<and>
           last calls =
             RedirectCall
               (redirect_request (host cfg) (accountSid cfg) c
                  (absoluteUrl (host cfg) (''/audio/'' @ ident @ ''.wav'')))"
  using assms
  by (auto simp: finalizeUtterance_def Let_def saveWav_def
      split: if_splits prod.splits sum.splits bool.splits)

text \<open>
  Claim C4. The claim says that the markup sent to the call-control collaborator after a
  successful finalize plays the reply artifact and then returns the call to the resume
  path. The code evaluated at a successful finalize for call \<open>CA1\<close>: the markup plays the
  fresh artifact's URL, and its redirect names the call-start webhook \<^verbatim>\<open>/twilio/voice\<close>; the
  resume URL that \<^verbatim>\<open>finalizeUtterance\<close> computes does not occur in it.
\<close>

theorem finalize_redirects_to_voice_webhook:
  "snd (finalizeUtterance sample_config (sample_io 1000) sample_state ''CA1'' ''hello'')
     = (sample_calls, Inr ())
   \<and> absoluteUrl (host sample_config) ''/twilio/resume'' = ''https://voice.example.com/twilio/resume''
   \<and> str_includes (post_twiml (redirect_request (host sample_config) (accountSid sample_config)
         ''CA1'' ''https://voice.example.com/audio/k1-00ff00ff.wav''))
        ''https://voice.example.com/twilio/voice''
   \<and> \<not> str_includes (post_twiml (redirect_request (host sample_config) (accountSid sample_config)
         ''CA1'' ''https://voice.example.com/audio/k1-00ff00ff.wav''))
        ''https://voice.example.com/twilio/resume''"
proof (intro conjI)
  show "snd (finalizeUtterance sample_config (sample_io 1000) sample_state ''CA1'' ''hello'')
     = (sample_calls, Inr ())"
    using js_trim_hello
    by (simp add: finalizeUtterance_def sample_io_def
      sample_speech_ok shouldProcess_def sample_state_def sample_config_def saveWav_def
      redirectCallToPlay_def sample_calls_def
      redirect_request_def redirect_twiml_trimmed absoluteUrl_def startsWith_def)
  show "absoluteUrl (host sample_config) ''/twilio/resume'' = ''https://voice.example.com/twilio/resume''"
    by (simp add: absoluteUrl_def sample_config_def startsWith_def)
  have tw: "post_twiml (redirect_request (host sample_config) (accountSid sample_config)
         ''CA1'' ''https://voice.example.com/audio/k1-00ff00ff.wav'') =
       ''<Response>'' @ nl @
           ''      <Play>https://voice.example.com/audio/k1-00ff00ff.wav</Play>'' @ nl @
           ''      <Redirect method='' @ dq @ ''POST'' @ dq @
             ''>https://voice.example.com/twilio/voice</Redirect>'' @ nl @
           ''    </Response>''"
    by (simp add: redirect_request_def redirect_twiml_trimmed sample_config_def)
  show "str_includes (post_twiml (redirect_request (host sample_config) (accountSid sample_config)
         ''CA1'' ''https://voice.example.com/audio/k1-00ff00ff.wav''))
        ''https://voice.example.com/twilio/voice''"
    unfolding tw by code_simp
  show "\<not> str_includes (post_twiml (redirect_request (host sample_config) (accountSid sample_config)
         ''CA1'' ''https://voice.example.com/audio/k1-00ff00ff.wav''))
        ''https://voice.example.com/twilio/resume''"
    unfolding tw by code_simp
qed

subsection \<open>Greeting once per call\<close>

lemma no_greeting_not_has: "no_greeting_block cfg r \<Longrightarrow> \<not> has_greeting_block cfg r"
  by (auto simp: no_greeting_block_def has_greeting_block_def voice_twiml_inj
      play_block_def say_block_def)

lemma rejected_not_has:
  "payload r = ''Invalid Twilio signature'' \<Longrightarrow> \<not> has_greeting_block cfg r"
  by (simp add: has_greeting_block_def voice_twiml_trimmed)

lemma greeting_block_cases:
  "greeting_block cfg io st True = (g, st') \<Longrightarrow>
     (g = play_block cfg \<or> g = say_block cfg) \<and> greeted st' = greeted st
       \<and> recentByCall st' = recentByCall st"
  by (auto simp: greeting_block_def ensureGreetingWav_def saveGreeting_def play_block_def
      say_block_def split: if_splits sum.splits option.splits)

lemma voice_rejected:
  "signature_rejected hmac cfg req \<Longrightarrow>
   twilio_voice hmac cfg io st req =
     (st, \<lparr>code = 403, ctype = ''text/plain'', payload = ''Invalid Twilio signature''\<rparr>)"
  by (simp add: twilio_voice_def)

lemma voice_first:
  assumes "\<not> signature_rejected hmac cfg req" "call_sid_of (form_body req) = c" "c \<noteq> []"
    "c \<notin> greeted st"
  shows "\<exists>st' r. twilio_voice hmac cfg io st req = (st', r)
           \<and> greeted st' = insert c (greeted st) \<and> recentByCall st' = recentByCall st
           \<and> code r = 200 \<and> has_greeting_block cfg r"
proof -
  obtain g st2 where gb:
    "greeting_block cfg io (st\<lparr>greeted := insert c (greeted st)\<rparr>) True = (g, st2)"
    by (cases "greeting_block cfg io (st\<lparr>greeted := insert c (greeted st)\<rparr>) True")
  from greeting_block_cases [OF gb] gb assms show ?thesis
    by (auto simp: twilio_voice_def has_greeting_block_def voice_attrs_def)
qed

lemma voice_again:
  assumes "\<not> signature_rejected hmac cfg req" "call_sid_of (form_body req) = c"
    "c = [] \<or> c \<in> greeted st"
  shows "twilio_voice hmac cfg io st req =
           (st, \<lparr>code = 200, ctype = ''text/xml'', payload = voice_twiml [] (voice_attrs cfg)\<rparr>)"
  using assms by (auto simp: twilio_voice_def greeting_block_def voice_attrs_def)

lemma voice_step:
  "\<exists>st1 r. twilio_voice hmac cfg io st req = (st1, r)
     \<and> greeted st1 =
         (if \<not> signature_rejected hmac cfg req \<and> call_sid_of (form_body req) \<noteq> []
          then insert (call_sid_of (form_body req)) (greeted st) else greeted st)
     \<and> (has_greeting_block cfg r \<longleftrightarrow>
          \<not> signature_rejected hmac cfg req \<and> call_sid_of (form_body req) \<noteq> []
          \<and> call_sid_of (form_body req) \<notin> greeted st)"
proof (cases "signature_rejected hmac cfg req")
  case True
  then show ?thesis by (simp add: voice_rejected rejected_not_has)
next
  case False
  show ?thesis
  proof (cases "call_sid_of (form_body req) = [] \<or> call_sid_of (form_body req) \<in> greeted st")
    case True
    have "\<not> has_greeting_block cfg
            \<lparr>code = 200, ctype = ''text/xml'', payload = voice_twiml [] (voice_attrs cfg)\<rparr>"
      by (rule no_greeting_not_has) (simp add: no_greeting_block_def)
    with True False show ?thesis
      using voice_again [OF False refl True, of io] by (auto simp: insert_absorb)
  next
    case nf: False
    then show ?thesis
      using voice_first [OF False refl, of st io] False by auto
  qed
qed

lemma greetings_for_Cons:
  "greetings_for cfg c (ev # evs) (r # rs) =
     (if call_sid_of (form_body (snd ev)) = c \<and> has_greeting_block cfg r then 1 else 0)
     + greetings_for cfg c evs rs"
  by (simp add: greetings_for_def)

lemma accepted_ids_Cons:
  "accepted_ids hmac cfg (ev # evs) =
     (if signature_rejected hmac cfg (snd ev) then [] else [call_sid_of (form_body (snd ev))])
     @ accepted_ids hmac cfg evs"
  by (simp add: accepted_ids_def)

lemma run_voice_greetings:
  "c \<noteq> [] \<Longrightarrow> run_voice hmac cfg st evs = (st', rs) \<Longrightarrow>
     greetings_for cfg c evs rs =
       (if c \<notin> greeted st \<and> c \<in> set (accepted_ids hmac cfg evs) then 1 else 0)
     \<and> (c \<in> greeted st' \<longleftrightarrow> c \<in> greeted st \<or> c \<in> set (accepted_ids hmac cfg evs))"
proof (induction evs arbitrary: st st' rs)
  case Nil
  then show ?case by (simp add: greetings_for_def accepted_ids_def)
next
  case (Cons ev evs)
  obtain io req where ev: "ev = (io, req)" by (cases ev)
  obtain st1 r where s: "twilio_voice hmac cfg io st req = (st1, r)"
    and g: "greeted st1 =
         (if \<not> signature_rejected hmac cfg req \<and> call_sid_of (form_body req) \<noteq> []
          then insert (call_sid_of (form_body req)) (greeted st) else greeted st)"
    and h: "has_greeting_block cfg r \<longleftrightarrow>
          \<not> signature_rejected hmac cfg req \<and> call_sid_of (form_body req) \<noteq> []
          \<and> call_sid_of (form_body req) \<notin> greeted st"
    using voice_step [of hmac cfg io st req] by blast
  obtain st2 rs2 where t: "run_voice hmac cfg st1 evs = (st2, rs2)"
    by (cases "run_voice hmac cfg st1 evs")
  have eq: "st' = st2" "rs = r # rs2"
    using Cons.prems(2) s t by (simp_all add: ev)
  note ih = Cons.IH [OF Cons.prems(1) t]
  show ?case
    using ih g h Cons.prems(1)
    by (auto simp: eq greetings_for_Cons accepted_ids_Cons ev split: if_splits)
qed

lemma escapeXml_no_lt: "CHR ''<'' \<notin> set (escapeXml s)"
  by (induction s) (auto simp: escapeXml_def escapeXml_char_def)

lemma str_includes_skip:
  "CHR ''<'' \<notin> set e \<Longrightarrow> str_includes (e @ rest) (CHR ''<'' # t) = str_includes rest (CHR ''<'' # t)"
  by (induction e) (auto simp: startsWith_def)

lemma str_includes_skip_escape:
  "str_includes (escapeXml x @ rest) (CHR ''<'' # t) = str_includes rest (CHR ''<'' # t)"
  by (rule str_includes_skip) (rule escapeXml_no_lt)

lemma no_greeting_markup_plain: "\<not> names_greeting_element (voice_twiml [] (voice_attrs cfg))"
  by (simp add: names_greeting_element_def voice_twiml_trimmed voice_attrs_def
      buildTranscriptionAttrs_def nl_def dq_def startsWith_def str_includes_skip_escape)

lemma rejected_markup_plain: "\<not> names_greeting_element ''Invalid Twilio signature''"
  by (simp add: names_greeting_element_def startsWith_def)

lemma greeting_blocks_named:
  "names_greeting_element (voice_twiml (play_block cfg) a)"
  "names_greeting_element (voice_twiml (say_block cfg) a)"
  by (simp_all add: names_greeting_element_def voice_twiml_trimmed play_block_def say_block_def
      nl_def dq_def startsWith_def)

lemma run_voice_empty_exact:
  "\<forall>ev\<in>set evs. call_sid_of (form_body (snd ev)) = [] \<Longrightarrow>
   run_voice hmac cfg st evs =
     (st, map (\<lambda>ev. if signature_rejected hmac cfg (snd ev) then rejected_reply
                    else no_greeting_reply cfg) evs)"
proof (induction evs)
  case Nil
  then show ?case by simp
next
  case (Cons ev evs)
  obtain io req where ev: "ev = (io, req)" by (cases ev)
  have e: "call_sid_of (form_body req) = []" using Cons.prems ev by simp
  have step: "twilio_voice hmac cfg io st req =
      (st, if signature_rejected hmac cfg req then rejected_reply else no_greeting_reply cfg)"
  proof (cases "signature_rejected hmac cfg req")
    case True
    then show ?thesis by (simp add: voice_rejected rejected_reply_def)
  next
    case False
    have "twilio_voice hmac cfg io st req =
           (st, \<lparr>code = 200, ctype = ''text/xml'', payload = voice_twiml [] (voice_attrs cfg)\<rparr>)"
      by (rule voice_again [OF False e]) simp
    with False show ?thesis by (simp add: no_greeting_reply_def)
  qed
  have "\<forall>ev\<in>set evs. call_sid_of (form_body (snd ev)) = []" using Cons.prems by simp
  from Cons.IH [OF this] step show ?case by (simp add: ev)
qed

lemma sample_not_rejected: "\<not> signature_rejected sample_hmac sample_config (sample_request b)"
  by (simp add: signature_rejected_def sample_config_def)

text \<open>
  Claim C1, as stated for every call identifier, fails at the empty identifier: a
  call-start event without a call identifier, arriving when the empty identifier is not in
  the greeted set, does not insert it and its response carries no greeting block.
\<close>

theorem greeting_any_identifier_counterexample:
  "call_sid_of (form_body (sample_request [(''From'', FStr ''+15550100'')])) = []
   \<and> [] \<notin> greeted sample_state
   \<and> \<not> signature_rejected sample_hmac sample_config (sample_request [(''From'', FStr ''+15550100'')])
   \<and> (case twilio_voice sample_hmac sample_config sample_voice_io sample_state
              (sample_request [(''From'', FStr ''+15550100'')]) of
         (st', r) \<Rightarrow> [] \<notin> greeted st' \<and> \<not> has_greeting_block sample_config r)"
proof -
  have c: "call_sid_of (form_body (sample_request [(''From'', FStr ''+15550100'')])) = []"
    by (simp add: sample_request_def call_sid_of_def)
  have g: "[] \<notin> greeted sample_state" by (simp add: sample_state_def)
  have v: "twilio_voice sample_hmac sample_config sample_voice_io sample_state
              (sample_request [(''From'', FStr ''+15550100'')]) =
           (sample_state, \<lparr>code = 200, ctype = ''text/xml'',
              payload = voice_twiml [] (voice_attrs sample_config)\<rparr>)"
    by (rule voice_again [OF sample_not_rejected c]) simp
  have n: "\<not> has_greeting_block sample_config \<lparr>code = 200, ctype = ''text/xml'',
              payload = voice_twiml [] (voice_attrs sample_config)\<rparr>"
    by (rule no_greeting_not_has) (simp add: no_greeting_block_def)
  show ?thesis using c g n sample_not_rejected by (simp add: v)
qed

text \<open>
  Claim C1, amended. For every non-empty call identifier \<open>c\<close>: a call-start event (a request
  to the call-start webhook that passes signature verification) with identifier \<open>c\<close> inserts
  \<open>c\<close> into the greeted set and answers with a greeting block when \<open>c\<close> was not greeted
  before, and leaves the greeted set unchanged and answers with no greeting block when it
  was. Over any sequence of requests to the call-start webhook, exactly one reply to an
  event with identifier \<open>c\<close> carries a greeting block if \<open>c\<close> was not greeted at the start and
  some event with identifier \<open>c\<close> passes verification, and none does otherwise; \<open>c\<close> is in the
  greeted set afterwards exactly when it was before or such an event occurred.
\<close>

theorem greeting_once_per_call:
  "c \<noteq> [] \<longrightarrow>
     (\<not> signature_rejected hmac cfg req \<and> call_sid_of (form_body req) = c \<longrightarrow>
        (case twilio_voice hmac cfg io st req of
           (st', r) \<Rightarrow>
             if c \<in> greeted st then greeted st' = greeted st \<and> no_greeting_block cfg r
             else greeted st' = insert c (greeted st) \<and> has_greeting_block cfg r))
     \<and> (case run_voice hmac cfg st evs of
          (st', rs) \<Rightarrow>
            greetings_for cfg c evs rs =
              (if c \<notin> greeted st \<and> c \<in> set (accepted_ids hmac cfg evs) then 1 else 0)
            \<and> (c \<in> greeted st' \<longleftrightarrow> c \<in> greeted st \<or> c \<in> set (accepted_ids hmac cfg evs)))"
proof (intro impI conjI)
  assume c: "c \<noteq> []"
  assume a: "\<not> signature_rejected hmac cfg req \<and> call_sid_of (form_body req) = c"
  show "case twilio_voice hmac cfg io st req of
           (st', r) \<Rightarrow>
             if c \<in> greeted st then greeted st' = greeted st \<and> no_greeting_block cfg r
             else greeted st' = insert c (greeted st) \<and> has_greeting_block cfg r"
  proof (cases "c \<in> greeted st")
    case True
    have "twilio_voice hmac cfg io st req =
            (st, \<lparr>code = 200, ctype = ''text/xml'', payload = voice_twiml [] (voice_attrs cfg)\<rparr>)"
      using a True by (intro voice_again [where c = c]) simp_all
    then show ?thesis using True by (simp add: no_greeting_block_def)
  next
    case False
    obtain st' r where "twilio_voice hmac cfg io st req = (st', r)"
      "greeted st' = insert c (greeted st)" "has_greeting_block cfg r"
      using voice_first [of hmac cfg req c st io] a c False by blast
    then show ?thesis using False by simp
  qed
next
  assume c: "c \<noteq> []"
  obtain st' rs where r: "run_voice hmac cfg st evs = (st', rs)"
    by (cases "run_voice hmac cfg st evs")
  from run_voice_greetings [OF c r] show "case run_voice hmac cfg st evs of
          (st', rs) \<Rightarrow>
            greetings_for cfg c evs rs =
              (if c \<notin> greeted st \<and> c \<in> set (accepted_ids hmac cfg evs) then 1 else 0)
            \<and> (c \<in> greeted st' \<longleftrightarrow> c \<in> greeted st \<or> c \<in> set (accepted_ids hmac cfg evs))"
    by (simp add: r)
qed

theorem greeting_once_per_call_witness:
  "''CA1'' \<noteq> []
   \<and> \<not> signature_rejected sample_hmac sample_config (sample_request [(''CallSid'', FStr ''CA1'')])
   \<and> call_sid_of (form_body (sample_request [(''CallSid'', FStr ''CA1'')])) = ''CA1''
   \<and> ''CA1'' \<notin> greeted sample_state
   \<and> (case twilio_voice sample_hmac sample_config sample_voice_io sample_state
              (sample_request [(''CallSid'', FStr ''CA1'')]) of
         (st', r) \<Rightarrow> greeted st' = {''CA1''} \<and> has_greeting_block sample_config r)
   \<and> ''CA1'' \<in> set (accepted_ids sample_hmac sample_config sample_events)
   \<and> (case run_voice sample_hmac sample_config sample_state sample_events of
         (st', rs) \<Rightarrow> greetings_for sample_config ''CA1'' sample_events rs = 1
                        \<and> ''CA1'' \<in> greeted st')"
proof -
  have c: "''CA1'' \<noteq> []" by simp
  have a: "\<not> signature_rejected sample_hmac sample_config (sample_request [(''CallSid'', FStr ''CA1'')])
           \<and> call_sid_of (form_body (sample_request [(''CallSid'', FStr ''CA1'')])) = ''CA1''"
  proof
    show "\<not> signature_rejected sample_hmac sample_config (sample_request [(''CallSid'', FStr ''CA1'')])"
      by (rule sample_not_rejected)
    show "call_sid_of (form_body (sample_request [(''CallSid'', FStr ''CA1'')])) = ''CA1''"
      by (simp add: sample_request_def call_sid_of_def)
  qed
  have g: "''CA1'' \<notin> greeted sample_state" "greeted sample_state = {}"
    by (simp_all add: sample_state_def)
  have i: "''CA1'' \<in> set (accepted_ids sample_hmac sample_config sample_events)"
    using a by (simp add: accepted_ids_def sample_events_def)
  note t = greeting_once_per_call [where c = "''CA1''" and hmac = sample_hmac
      and cfg = sample_config and req = "sample_request [(''CallSid'', FStr ''CA1'')]"
      and io = sample_voice_io and st = sample_state and evs = sample_events, THEN mp, OF c]
  have 1: "case twilio_voice sample_hmac sample_config sample_voice_io sample_state
              (sample_request [(''CallSid'', FStr ''CA1'')]) of
         (st', r) \<Rightarrow> greeted st' = {''CA1''} \<and> has_greeting_block sample_config r"
    using t [THEN conjunct1, THEN mp, OF a] g by (simp split: prod.splits)
  have 2: "case run_voice sample_hmac sample_config sample_state sample_events of
         (st', rs) \<Rightarrow> greetings_for sample_config ''CA1'' sample_events rs = 1
                        \<and> ''CA1'' \<in> greeted st'"
  proof -
    obtain st' rs where r: "run_voice sample_hmac sample_config sample_state sample_events = (st', rs)"
      by (cases "run_voice sample_hmac sample_config sample_state sample_events")
    from t [THEN conjunct2] g(1) i show ?thesis
      unfolding r by (simp only: prod.case if_True simp_thms)
  qed
  from c a g(1) 1 i 2 show ?thesis by (intro conjI) (simp_all only: simp_thms)
qed

text \<open>
  Claim C9. A call-start event whose call identifier is empty (missing from the payload)
  never inserts anything into the greeted set, and its response never contains a greeting
  block, for every sequence of such events: the state after the sequence is the state
  before it, and every response is, letter for letter, either the call-start markup around
  an empty greeting block or the rejection of an invalid signature. Neither names a
  \<open>Play\<close> or \<open>Say\<close> element, and neither is one of the two greeting responses.
\<close>

theorem empty_identifier_never_greeted:
  "(\<forall>ev\<in>set evs. call_sid_of (form_body (snd ev)) = []) \<longrightarrow>
     run_voice hmac cfg st evs =
       (st, map (\<lambda>ev. if signature_rejected hmac cfg (snd ev) then rejected_reply
                      else no_greeting_reply cfg) evs)
     \<and> greeted (fst (run_voice hmac cfg st evs)) = greeted st
     \<and> (\<forall>r\<in>set (snd (run_voice hmac cfg st evs)).
          (r = no_greeting_reply cfg \<or> r = rejected_reply)
          \<and> \<not> names_greeting_element (payload r)
          \<and> \<not> has_greeting_block cfg r)"
proof
  assume a: "\<forall>ev\<in>set evs. call_sid_of (form_body (snd ev)) = []"
  note e = run_voice_empty_exact [OF a, of hmac cfg st]
  have n: "\<not> names_greeting_element (payload (no_greeting_reply cfg))"
    "\<not> names_greeting_element (payload rejected_reply)"
    by (simp_all add: no_greeting_reply_def rejected_reply_def no_greeting_markup_plain
        rejected_markup_plain)
  have h: "\<not> has_greeting_block cfg (no_greeting_reply cfg)"
    "\<not> has_greeting_block cfg rejected_reply"
    by (simp_all add: no_greeting_not_has no_greeting_block_def no_greeting_reply_def
        rejected_not_has rejected_reply_def)
  have "\<forall>r\<in>set (snd (run_voice hmac cfg st evs)).
          (r = no_greeting_reply cfg \<or> r = rejected_reply)
          \<and> \<not> names_greeting_element (payload r)
          \<and> \<not> has_greeting_block cfg r"
    using n h by (auto simp: e)
  then show "run_voice hmac cfg st evs =
       (st, map (\<lambda>ev. if signature_rejected hmac cfg (snd ev) then rejected_reply
                      else no_greeting_reply cfg) evs)
     \<and> greeted (fst (run_voice hmac cfg st evs)) = greeted st
     \<and> (\<forall>r\<in>set (snd (run_voice hmac cfg st evs)).
          (r = no_greeting_reply cfg \<or> r = rejected_reply)
          \<and> \<not> names_greeting_element (payload r)
          \<and> \<not> has_greeting_block cfg r)"
    using e by simp
qed

theorem empty_identifier_never_greeted_witness:
  "list_all (\<lambda>ev. call_sid_of (form_body (snd ev)) = []) sample_events_no_sid
   \<and> run_voice sample_hmac sample_config sample_state sample_events_no_sid =
       (sample_state,
        [no_greeting_reply sample_config, no_greeting_reply sample_config,
         no_greeting_reply sample_config])
   \<and> greeted (fst (run_voice sample_hmac sample_config sample_state sample_events_no_sid))
       = greeted sample_state
   \<and> \<not> names_greeting_element (payload (no_greeting_reply sample_config))"
proof -
  have a: "\<forall>ev\<in>set sample_events_no_sid. call_sid_of (form_body (snd ev)) = []"
    by (simp add: sample_events_no_sid_def sample_request_def call_sid_of_def)
  have nr: "\<forall>ev\<in>set sample_events_no_sid. \<not> signature_rejected sample_hmac sample_config (snd ev)"
    by (simp add: signature_rejected_def sample_config_def)
  have m: "map (\<lambda>ev. if signature_rejected sample_hmac sample_config (snd ev) then rejected_reply
                      else no_greeting_reply sample_config) sample_events_no_sid
           = [no_greeting_reply sample_config, no_greeting_reply sample_config,
              no_greeting_reply sample_config]"
    using nr by (simp add: sample_events_no_sid_def)
  note t = empty_identifier_never_greeted [where evs = sample_events_no_sid and hmac = sample_hmac
      and cfg = sample_config and st = sample_state, THEN mp, OF a]
  have 1: "run_voice sample_hmac sample_config sample_state sample_events_no_sid =
       (sample_state,
        [no_greeting_reply sample_config, no_greeting_reply sample_config,
         no_greeting_reply sample_config])"
    using t [THEN conjunct1] by (simp only: m)
  have 2: "greeted (fst (run_voice sample_hmac sample_config sample_state sample_events_no_sid))
       = greeted sample_state"
    by (rule t [THEN conjunct2, THEN conjunct1])
  have 3: "\<not> names_greeting_element (payload (no_greeting_reply sample_config))"
    using t [THEN conjunct2, THEN conjunct2] by (simp add: 1)
  have 4: "list_all (\<lambda>ev. call_sid_of (form_body (snd ev)) = []) sample_events_no_sid"
    using a by (simp only: list_all_iff)
  from 4 1 2 3 show ?thesis by (intro conjI)
qed

subsection \<open>Signature verification\<close>

lemma two_pow_len8: "(2::nat) ^ LENGTH(8) = 256"
  by simp

lemma unat_byte_of_nat: "a < 256 \<Longrightarrow> unat (of_nat a :: byte) = a"
  by (simp only: unat_of_nat two_pow_len8 mod_less)

lemma byte_of_nat_inj:
  assumes "a < 256" "b < 256" "(of_nat a :: byte) = of_nat b"
  shows "a = b"
  by (metis assms unat_byte_of_nat)

lemma utf8_char_not_Nil: "utf8_char x \<noteq> []"
  by (simp add: utf8_char_def Let_def)

lemma utf8_char_inj:
  assumes "utf8_char x @ r = utf8_char y @ r'"
  shows "x = y \<and> r = r'"
proof -
  let ?n = "of_char x :: nat" and ?m = "of_char y :: nat"
  have bn: "?n < 256" and bm: "?m < 256" by simp_all
  have nm: "?n = ?m \<and> r = r'"
  proof (cases "?n < 128")
    case n: True
    show ?thesis
    proof (cases "?m < 128")
      case True
      with n assms have "(of_nat ?n :: byte) = of_nat ?m" "r = r'"
        by (simp_all add: utf8_char_def Let_def)
      with byte_of_nat_inj [OF bn bm] show ?thesis by simp
    next
      case False
      with n assms have e: "(of_nat ?n :: byte) = of_nat (192 + ?m div 64)"
        by (simp add: utf8_char_def Let_def)
      have "192 + ?m div 64 < 256" using bm by arith
      from byte_of_nat_inj [OF bn this e] n show ?thesis by simp
    qed
  next
    case n: False
    show ?thesis
    proof (cases "?m < 128")
      case True
      with n assms have e: "(of_nat (192 + ?n div 64) :: byte) = of_nat ?m"
        by (simp add: utf8_char_def Let_def)
      have "192 + ?n div 64 < 256" using bn by arith
      from byte_of_nat_inj [OF this bm e] True show ?thesis by simp
    next
      case False
      with n assms have e1: "(of_nat (192 + ?n div 64) :: byte) = of_nat (192 + ?m div 64)"
        and e2: "(of_nat (128 + ?n mod 64) :: byte) = of_nat (128 + ?m mod 64)" and r: "r = r'"
        by (simp_all add: utf8_char_def Let_def)
      have "192 + ?n div 64 < 256" "192 + ?m div 64 < 256" using bn bm by arith+
      from byte_of_nat_inj [OF this e1] have d: "?n div 64 = ?m div 64" by simp
      have "128 + ?n mod 64 < 256" "128 + ?m mod 64 < 256" by arith+
      from byte_of_nat_inj [OF this e2] have m: "?n mod 64 = ?m mod 64" by simp
      from d m have "?n = ?m" by (metis div_mult_mod_eq)
      with r show ?thesis by simp
    qed
  qed
  then show ?thesis by simp
qed

lemma Buffer_from_inj: "Buffer_from a = Buffer_from b \<longleftrightarrow> a = b"
proof
  show "Buffer_from a = Buffer_from b \<Longrightarrow> a = b"
  proof (induction a arbitrary: b)
    case Nil
    then show ?case
      by (cases b) (simp_all add: Buffer_from_def utf8_char_not_Nil)
  next
    case (Cons x xs)
    show ?case
    proof (cases b)
      case Nil
      with Cons.prems show ?thesis by (simp add: Buffer_from_def utf8_char_not_Nil)
    next
      case (Cons y ys)
      with Cons.prems have "utf8_char x @ Buffer_from xs = utf8_char y @ Buffer_from ys"
        by (simp add: Buffer_from_def)
      from utf8_char_inj [OF this] Cons.IH [of ys] Cons show ?thesis by simp
    qed
  qed
qed simp

lemma validate_present:
  assumes "signature_header hdrs = Some sig" "sig \<noteq> []" "tok \<noteq> []" "u \<noteq> []"
  shows "validateTwilioSignature hmac True (Some tok) (Some u) hdrs fbody =
           (Buffer_from (hmac tok (canonical_string u fbody)) = Buffer_from sig)"
proof -
  have c: "u @ concat (case fbody of Some b \<Rightarrow> map (key_value b) (sort (map fst b)) | None \<Rightarrow> [])
           = canonical_string u fbody"
    by (cases fbody) (simp_all add: canonical_string_def)
  show ?thesis
    using assms by (auto simp: validateTwilioSignature_def Let_def c timingSafeEqual_def)
qed

text \<open>
  Claim C5. Signature verification returns true whenever the enabled flag is false,
  whatever the other inputs; when enabled it returns false if the signature header, the
  secret or the URL is absent; otherwise it returns true if and only if the base64 text of
  the HMAC-SHA1, keyed by the secret, of the URL concatenated with the form-body keys
  sorted lexicographically, each immediately followed by its value, equals the signature
  header byte for byte (the two buffers have the same length and content), which is the
  same as the two texts being equal.
\<close>

theorem signature_verification:
  "(\<not> enabled \<longrightarrow> validateTwilioSignature hmac enabled token url hdrs fbody)
   \<and> (enabled \<and> (absent (signature_header hdrs) \<or> absent token \<or> absent url) \<longrightarrow>
        \<not> validateTwilioSignature hmac enabled token url hdrs fbody)
   \<and> (enabled \<and> signature_header hdrs = Some sig \<and> token = Some tok \<and> url = Some u
        \<and> sig \<noteq> [] \<and> tok \<noteq> [] \<and> u \<noteq> [] \<longrightarrow>
        validateTwilioSignature hmac enabled token url hdrs fbody =
          (Buffer_from (hmac tok (canonical_string u fbody)) = Buffer_from sig)
        \<and> validateTwilioSignature hmac enabled token url hdrs fbody =
          (hmac tok (canonical_string u fbody) = sig))"
proof (intro conjI impI)
  assume "\<not> enabled"
  then show "validateTwilioSignature hmac enabled token url hdrs fbody"
    by (simp add: validateTwilioSignature_def)
next
  assume "enabled \<and> (absent (signature_header hdrs) \<or> absent token \<or> absent url)"
  then show "\<not> validateTwilioSignature hmac enabled token url hdrs fbody"
    by (auto simp: validateTwilioSignature_def absent_def split: option.splits)
next
  assume a: "enabled \<and> signature_header hdrs = Some sig \<and> token = Some tok \<and> url = Some u
        \<and> sig \<noteq> [] \<and> tok \<noteq> [] \<and> u \<noteq> []"
  then show "validateTwilioSignature hmac enabled token url hdrs fbody =
          (Buffer_from (hmac tok (canonical_string u fbody)) = Buffer_from sig)"
    using validate_present [of hdrs sig tok u hmac fbody] by simp
  with a show "validateTwilioSignature hmac enabled token url hdrs fbody =
          (hmac tok (canonical_string u fbody) = sig)"
    by (simp add: Buffer_from_inj)
qed

lemma sample_canonical:
  "canonical_string sample_url (Some sample_form) =
     ''https://voice.example.com/twilio/voiceCallSidCA1From+15550100''"
  by code_simp

theorem signature_verification_witness:
  "signature_header sample_signed_headers =
     Some (sample_hmac ''secret'' ''https://voice.example.com/twilio/voiceCallSidCA1From+15550100'')
   \<and> validateTwilioSignature sample_hmac True (Some ''secret'') (Some sample_url)
        sample_signed_headers (Some sample_form)
   \<and> \<not> validateTwilioSignature sample_hmac True (Some ''other'') (Some sample_url)
        sample_signed_headers (Some sample_form)
   \<and> absent (signature_header Map.empty)
   \<and> \<not> validateTwilioSignature sample_hmac True (Some ''secret'') (Some sample_url)
        Map.empty (Some sample_form)
   \<and> validateTwilioSignature sample_hmac False None None Map.empty None"
proof -
  let ?sig = "sample_hmac ''secret'' ''https://voice.example.com/twilio/voiceCallSidCA1From+15550100''"
  have h: "signature_header sample_signed_headers = Some ?sig"
    by (simp add: signature_header_def sample_signed_headers_def sample_hmac_def)
  have ne: "?sig \<noteq> []" "''secret'' \<noteq> []" "''other'' \<noteq> []" "sample_url \<noteq> []"
    by (simp_all add: sample_hmac_def sample_url_def)
  have h1: "True \<and> signature_header sample_signed_headers = Some ?sig
      \<and> Some ''secret'' = Some ''secret'' \<and> Some sample_url = Some sample_url
      \<and> ?sig \<noteq> [] \<and> ''secret'' \<noteq> [] \<and> sample_url \<noteq> []"
    using h ne by simp
  have h2: "True \<and> signature_header sample_signed_headers = Some ?sig
      \<and> Some ''other'' = Some ''other'' \<and> Some sample_url = Some sample_url
      \<and> ?sig \<noteq> [] \<and> ''other'' \<noteq> [] \<and> sample_url \<noteq> []"
    using h ne by simp
  have 1: "validateTwilioSignature sample_hmac True (Some ''secret'') (Some sample_url)
        sample_signed_headers (Some sample_form)"
    using signature_verification [where fbody = "Some sample_form" and hmac = sample_hmac,
        THEN conjunct2, THEN conjunct2, THEN mp, OF h1, THEN conjunct2]
    by (simp add: sample_canonical)
  have 2: "\<not> validateTwilioSignature sample_hmac True (Some ''other'') (Some sample_url)
        sample_signed_headers (Some sample_form)"
    using signature_verification [where fbody = "Some sample_form" and hmac = sample_hmac,
        THEN conjunct2, THEN conjunct2, THEN mp, OF h2, THEN conjunct2]
    by (simp add: sample_canonical sample_hmac_def)
  have a: "absent (signature_header Map.empty)"
    by (simp add: absent_def signature_header_def)
  have 3: "\<not> validateTwilioSignature sample_hmac True (Some ''secret'') (Some sample_url)
        Map.empty (Some sample_form)"
    using signature_verification [where enabled = True and hdrs = Map.empty
        and token = "Some ''secret''" and url = "Some sample_url" and hmac = sample_hmac
        and fbody = "Some sample_form", THEN conjunct2, THEN conjunct1] a
    by simp
  have 4: "validateTwilioSignature sample_hmac False None None Map.empty None"
    using signature_verification [where enabled = False, THEN conjunct1] by simp
  from h 1 2 a 3 4 show ?thesis by (intro conjI)
qed

subsection \<open>Strict validation of synthesized audio\<close>





text \<open>
  The tag check reads the bytes through the ASCII decoder, which clears the highest bit of
  every byte: a buffer whose tag bytes carry the highest bit passes the check without being
  a valid container.
\<close>

lemma high_bit_tags_pass:
  "looksLikeWav [0xD2, 0xC9, 0xC6, 0xC6, 0, 0, 0, 0, 0xD7, 0xC1, 0xD6, 0xC5]
   \<and> \<not> valid_container [0xD2, 0xC9, 0xC6, 0xC6, 0, 0, 0, 0, 0xD7, 0xC1, 0xD6, 0xC5]"
  by code_simp




subsection \<open>Byte ranges of the audio endpoint\<close>

lemma digit_char_code: "d < 10 \<Longrightarrow> (of_char (digit_char d) :: nat) = 48 + d"
  by (simp add: digit_char_def)

lemma show_nat_digits: "list_all is_digit (show_nat n) \<and> show_nat n \<noteq> []"
proof (induction n rule: show_nat.induct)
  case (1 n)
  show ?case
  proof (cases "n < 10")
    case True
    then show ?thesis by (simp add: show_nat.simps [of n] is_digit_def digit_char_code)
  next
    case False
    have "n mod 10 < 10" by simp
    then have "is_digit (digit_char (n mod 10))"
      using digit_char_code [of "n mod 10"] by (simp add: is_digit_def)
    with 1 False show ?thesis by (simp add: show_nat.simps [of n])
  qed
qed

lemma parseInt10_snoc: "parseInt10 (xs @ [c]) = 10 * parseInt10 xs + (of_char c - 48)"
  by (simp add: parseInt10_def)

lemma parseInt10_show_nat: "parseInt10 (show_nat n) = n"
proof (induction n rule: show_nat.induct)
  case (1 n)
  show ?case
  proof (cases "n < 10")
    case True
    then show ?thesis by (simp add: show_nat.simps [of n] parseInt10_def digit_char_code)
  next
    case False
    have "n mod 10 < 10" by simp
    then have d: "(of_char (digit_char (n mod 10)) :: nat) - 48 = n mod 10"
      using digit_char_code [of "n mod 10"] by simp
    have "parseInt10 (show_nat n) = parseInt10 (show_nat (n div 10) @ [digit_char (n mod 10)])"
      using False by (simp add: show_nat.simps [of n])
    also have "\<dots> = 10 * (n div 10) + n mod 10"
      using 1 False by (simp only: parseInt10_snoc d) simp
    finally show ?thesis by simp
  qed
qed

lemma match_range_digits:
  assumes "list_all is_digit m1" "list_all is_digit m2"
  shows "match_range (''bytes='' @ m1 @ ''-'' @ m2) = Some (m1, m2)"
proof -
  have nd: "\<not> is_digit CHR ''-''" by (simp add: is_digit_def)
  have t: "takeWhile is_digit (m1 @ CHR ''-'' # m2) = m1"
    using assms(1) nd by (simp add: takeWhile_append2 list_all_iff)
  have d: "dropWhile is_digit (m1 @ CHR ''-'' # m2) = CHR ''-'' # m2"
    using assms(1) nd by (simp add: dropWhile_append2 list_all_iff)
  show ?thesis
    using assms(2) by (simp add: match_range_def startsWith_def t d)
qed

lemma match_range_show_nat:
  "match_range (''bytes='' @ show_nat a @ ''-'' @ show_nat b) = Some (show_nat a, show_nat b)"
  by (rule match_range_digits) (simp_all add: show_nat_digits)

lemma audio_handler_range:
  assumes "file_name req = Some f" "f \<noteq> []" "endsWith f ''.wav''" "\<not> str_includes f ''..''"
    "audio st f = Some content" "\<not> is_head req"
    "range req = Some (''bytes='' @ show_nat a @ ''-'' @ show_nat b)"
  shows "audio_handler st req =
     (if a \<le> b \<and> b < length content then
        piped_reply 206
          (wav_headers
             (''Content-Range'' \<mapsto>
                ''bytes '' @ show_nat a @ ''-'' @ show_nat b @ ''/'' @ show_nat (length content),
              ''Content-Length'' \<mapsto> show_nat (b - a + 1)))
          (take (b - a + 1) (drop a content))
      else
        sent_reply 416
          (wav_headers(''Content-Range'' \<mapsto> ''bytes */'' @ show_nat (length content))) [])"
proof -
  define r where "r = ''bytes='' @ show_nat a @ ''-'' @ show_nat b"
  have rr: "range req = Some r" using assms(7) by (simp add: r_def)
  have rne: "r \<noteq> []" by (simp add: r_def)
  have mr: "match_range r = Some (show_nat a, show_nat b)"
    unfolding r_def by (rule match_range_show_nat)
  have ne: "show_nat a \<noteq> []" "show_nat b \<noteq> []" using show_nat_digits by simp_all
  have n: "nat (int b - int a + 1) = b - a + 1" if "a \<le> b" using that by simp
  show ?thesis
    using assms(1-6) rr rne mr ne n
    by (auto simp: audio_handler_def parseInt10_show_nat Let_def)
qed

text \<open>
  The headers that the handler sets on a served range do not reach the response: the
  handler pipes the bytes into the raw response and never sends the reply object. For
  \<open>bytes=0-9\<close> on a 100-byte file the response has status 206 and the ten bytes, and no
  \<open>Content-Range\<close>, \<open>Content-Length\<close> or \<open>Content-Type\<close> header from the handler.
\<close>

lemma range_headers_not_written:
  "status_code (audio_handler sample_audio_state (sample_range_request ''bytes=0-9'')) = 206
   \<and> reply_headers (audio_handler sample_audio_state (sample_range_request ''bytes=0-9''))
        ''Content-Range'' = None
   \<and> reply_headers (audio_handler sample_audio_state (sample_range_request ''bytes=0-9''))
        ''Content-Length'' = None
   \<and> reply_headers (audio_handler sample_audio_state (sample_range_request ''bytes=0-9''))
        ''Content-Type'' = None"
  by code_simp

text \<open>
  Claim C7, as stated, fails on the clamping: a range whose end lies beyond the file is
  not clamped to the file size but refused. On a 100-byte file the request
  \<open>bytes=0-199\<close> gets 416 with \<open>Content-Range: bytes */100\<close> and an empty body, where
  clamping would serve the bytes 0 to 99.
\<close>

theorem range_clamped_counterexample:
  "file_name (sample_range_request ''bytes=0-199'') = Some ''r1.wav''
   \<and> map_option length (audio sample_audio_state ''r1.wav'') = Some 100
   \<and> status_code (audio_handler sample_audio_state (sample_range_request ''bytes=0-199'')) = 416
   \<and> reply_headers (audio_handler sample_audio_state (sample_range_request ''bytes=0-199''))
         ''Content-Range'' = Some ''bytes */100''
   \<and> reply_body (audio_handler sample_audio_state (sample_range_request ''bytes=0-199'')) = []"
  by code_simp

text \<open>
  Claim C7, amended. For the audio retrieval endpoint, a \<^verbatim>\<open>GET\<close> with the single range
  \<open>bytes=start-end\<close> on an existing file is served inclusively when
  \<open>start \<le> end < file size\<close>: status 206 and, as the body, the \<open>end - start + 1\<close> bytes from
  \<open>start\<close> to \<open>end\<close>. It is not clamped to the file size: otherwise (the start is beyond the
  end, or the end is at or beyond the file size) the range is not satisfiable, with status
  416, \<open>Content-Range: bytes */size\<close> and an empty body. In particular \<open>bytes=0-9\<close> on a
  100-byte file yields a 206 response with a 10-byte body. (The headers of the 206 response
  are left out of this statement.)
\<close>

theorem range_request_served:
  "file_name req = Some f \<and> f \<noteq> [] \<and> endsWith f ''.wav'' \<and> \<not> str_includes f ''..''
   \<and> audio st f = Some content \<and> \<not> is_head req
   \<and> range req = Some (''bytes='' @ show_nat a @ ''-'' @ show_nat b) \<longrightarrow>
     (a \<le> b \<and> b < length content \<longrightarrow>
        status_code (audio_handler st req) = 206
        \<and> reply_body (audio_handler st req) = take (b - a + 1) (drop a content)
        \<and> length (reply_body (audio_handler st req)) = b - a + 1)
     \<and> (\<not> (a \<le> b \<and> b < length content) \<longrightarrow>
          audio_handler st req =
            \<lparr>status_code = 416,
             reply_headers =
               wav_headers(''Content-Range'' \<mapsto> ''bytes */'' @ show_nat (length content)),
             reply_body = []\<rparr>)"
proof
  assume h: "file_name req = Some f \<and> f \<noteq> [] \<and> endsWith f ''.wav'' \<and> \<not> str_includes f ''..''
   \<and> audio st f = Some content \<and> \<not> is_head req
   \<and> range req = Some (''bytes='' @ show_nat a @ ''-'' @ show_nat b)"
  then have e: "audio_handler st req =
     (if a \<le> b \<and> b < length content then
        piped_reply 206
          (wav_headers
             (''Content-Range'' \<mapsto>
                ''bytes '' @ show_nat a @ ''-'' @ show_nat b @ ''/'' @ show_nat (length content),
              ''Content-Length'' \<mapsto> show_nat (b - a + 1)))
          (take (b - a + 1) (drop a content))
      else
        sent_reply 416
          (wav_headers(''Content-Range'' \<mapsto> ''bytes */'' @ show_nat (length content))) [])"
    by (intro audio_handler_range [where f = f]) simp_all
  show "(a \<le> b \<and> b < length content \<longrightarrow>
        status_code (audio_handler st req) = 206
        \<and> reply_body (audio_handler st req) = take (b - a + 1) (drop a content)
        \<and> length (reply_body (audio_handler st req)) = b - a + 1)
     \<and> (\<not> (a \<le> b \<and> b < length content) \<longrightarrow>
          audio_handler st req =
            \<lparr>status_code = 416,
             reply_headers =
               wav_headers(''Content-Range'' \<mapsto> ''bytes */'' @ show_nat (length content)),
             reply_body = []\<rparr>)"
    by (auto simp: e piped_reply_def sent_reply_def)
qed

theorem range_request_served_witness:
  "range (sample_range_request ''bytes=0-9'') = Some (''bytes='' @ show_nat 0 @ ''-'' @ show_nat 9)
   \<and> map_option length (audio sample_audio_state ''r1.wav'') = Some 100
   \<and> status_code (audio_handler sample_audio_state (sample_range_request ''bytes=0-9'')) = 206
   \<and> reply_body (audio_handler sample_audio_state (sample_range_request ''bytes=0-9''))
       = replicate 10 0x55
   \<and> length (reply_body (audio_handler sample_audio_state (sample_range_request ''bytes=0-9''))) = 10"
proof -
  have r: "range (sample_range_request ''bytes=0-9'') = Some (''bytes='' @ show_nat 0 @ ''-'' @ show_nat 9)"
    by code_simp
  have l: "length (replicate 100 (0x55 :: byte)) = 100" by simp
  have h: "file_name (sample_range_request ''bytes=0-9'') = Some ''r1.wav'' \<and> ''r1.wav'' \<noteq> []
     \<and> endsWith ''r1.wav'' ''.wav'' \<and> \<not> str_includes ''r1.wav'' ''..''
     \<and> audio sample_audio_state ''r1.wav'' = Some (replicate 100 0x55)
     \<and> \<not> is_head (sample_range_request ''bytes=0-9'')
     \<and> range (sample_range_request ''bytes=0-9'') = Some (''bytes='' @ show_nat 0 @ ''-'' @ show_nat 9)"
    using r by (simp add: sample_range_request_def sample_audio_state_def endsWith_def startsWith_def)
  have ab: "(0::nat) \<le> 9 \<and> 9 < length (replicate 100 (0x55 :: byte))" by simp
  note t = range_request_served [where req = "sample_range_request ''bytes=0-9''"
      and st = sample_audio_state and a = 0 and b = 9, THEN mp, OF h, THEN conjunct1, THEN mp, OF ab]
  have tk: "take (9 - 0 + 1) (drop 0 (replicate 100 (0x55 :: byte))) = replicate 10 0x55"
    by simp
  have 1: "status_code (audio_handler sample_audio_state (sample_range_request ''bytes=0-9'')) = 206"
    using t by simp
  have 2: "reply_body (audio_handler sample_audio_state (sample_range_request ''bytes=0-9''))
       = replicate 10 0x55"
    using t tk by simp
  have 3: "length (reply_body (audio_handler sample_audio_state (sample_range_request ''bytes=0-9''))) = 10"
    using 2 by simp
  have 4: "map_option length (audio sample_audio_state ''r1.wav'') = Some 100"
    by (simp add: sample_audio_state_def)
  from r 4 1 2 3 show ?thesis by (intro conjI)
qed

subsection \<open>Transcript text extraction\<close>

lemma transcript_of_object:
  "transcript_of (JObj kvs) =
     (if field_truthy kvs ''transcript'' then
        (case map_of kvs ''transcript'' of Some v \<Rightarrow> json_String v | None \<Rightarrow> Inr [])
      else if field_truthy kvs ''Transcript'' then
        (case map_of kvs ''Transcript'' of Some v \<Rightarrow> json_String v | None \<Rightarrow> Inr [])
      else Inr [])"
  by (auto simp: transcript_of_def field_truthy_def split: option.splits)

lemma transcript_of_other:
  "\<not> is_object v \<Longrightarrow> transcript_of v = Inl TypeError \<or> transcript_of v = Inr []"
  by (cases v) (simp_all add: transcript_of_def)

text \<open>
  Claim C8, as stated, fails on the key lookup: the code reads the key \<open>transcript\<close> and
  then \<open>Transcript\<close> and no other spelling, so a payload whose key is \<open>TRANSCRIPT\<close>, which a
  case-insensitive lookup finds, gives the empty text.
\<close>

theorem transcript_key_counterexample:
  "transcription_data_field [(''TranscriptionData'', FStr sample_transcription_data)]
     = sample_transcription_data
   \<and> sample_json_parse sample_transcription_data = Some (JObj [(''TRANSCRIPT'', JStr ''hi'')])
   \<and> ci_lookup [(''TRANSCRIPT'', JStr ''hi'')] ''transcript'' = Some (JStr ''hi'')
   \<and> parseTranscriptionData sample_json_parse
        [(''TranscriptionData'', FStr sample_transcription_data)] = []"
  by code_simp

text \<open>
  Claim C8, amended. If the transcription-data field is present and not empty, it is parsed
  as a nested JSON payload and the text is the value of its property \<open>transcript\<close> or, when
  that is missing or falsy, of its property \<open>Transcript\<close> (no other spelling of the key is
  read), and empty when neither is there with a truthy value or the payload is not an
  object; on parse failure the text is empty. In all these cases there is no fallback: the
  text depends on the transcription-data field alone. Only when the transcription-data
  field is absent or empty does extraction fall back to the prioritized list of plain-text
  field aliases.
\<close>

theorem transcript_extraction:
  "(transcription_data_field body \<noteq> [] \<and> parse (transcription_data_field body) = None \<longrightarrow>
      parseTranscriptionData parse body = [])
   \<and> (transcription_data_field body \<noteq> [] \<and> parse (transcription_data_field body) = Some (JObj kvs)
        \<longrightarrow> parseTranscriptionData parse body =
              (if field_truthy kvs ''transcript'' then field_text kvs ''transcript''
               else if field_truthy kvs ''Transcript'' then field_text kvs ''Transcript''
               else []))
   \<and> (transcription_data_field body \<noteq> [] \<and> parse (transcription_data_field body) = Some v
        \<and> \<not> is_object v \<longrightarrow> parseTranscriptionData parse body = [])
   \<and> (transcription_data_field body \<noteq> []
        \<and> transcription_data_field body' = transcription_data_field body \<longrightarrow>
        parseTranscriptionData parse body' = parseTranscriptionData parse body)
   \<and> (transcription_data_field body = [] \<longrightarrow>
        parseTranscriptionData parse body = pick body text_aliases)"
proof (intro conjI impI)
  assume "transcription_data_field body \<noteq> [] \<and> parse (transcription_data_field body) = None"
  then show "parseTranscriptionData parse body = []"
    by (simp add: parseTranscriptionData_def transcription_data_field_def)
next
  assume "transcription_data_field body \<noteq> [] \<and> parse (transcription_data_field body) = Some (JObj kvs)"
  then show "parseTranscriptionData parse body =
              (if field_truthy kvs ''transcript'' then field_text kvs ''transcript''
               else if field_truthy kvs ''Transcript'' then field_text kvs ''Transcript''
               else [])"
    by (auto simp: parseTranscriptionData_def transcription_data_field_def transcript_of_object
        field_text_def field_truthy_def split: option.splits)
next
  assume a: "transcription_data_field body \<noteq> [] \<and> parse (transcription_data_field body) = Some v
        \<and> \<not> is_object v"
  then have "transcript_of v = Inl TypeError \<or> transcript_of v = Inr []"
    by (simp add: transcript_of_other)
  with a show "parseTranscriptionData parse body = []"
    by (auto simp: parseTranscriptionData_def transcription_data_field_def)
next
  assume "transcription_data_field body \<noteq> []
        \<and> transcription_data_field body' = transcription_data_field body"
  then show "parseTranscriptionData parse body' = parseTranscriptionData parse body"
    by (simp add: parseTranscriptionData_def transcription_data_field_def)
next
  assume "transcription_data_field body = []"
  then show "parseTranscriptionData parse body = pick body text_aliases"
    by (simp add: parseTranscriptionData_def transcription_data_field_def text_aliases_def)
qed

theorem transcript_extraction_witness:
  "transcription_data_field sample_transcript_body \<noteq> []
   \<and> sample_json_parse (transcription_data_field sample_transcript_body)
       = Some (JObj [(''transcript'', JStr ''hello'')])
   \<and> parseTranscriptionData sample_json_parse sample_transcript_body = ''hello''
   \<and> transcription_data_field [(''TranscriptionData'', FStr ''oops''), (''text'', FStr ''fallback'')]
       \<noteq> []
   \<and> sample_json_parse
        (transcription_data_field [(''TranscriptionData'', FStr ''oops''), (''text'', FStr ''fallback'')])
       = None
   \<and> parseTranscriptionData sample_json_parse
        [(''TranscriptionData'', FStr ''oops''), (''text'', FStr ''fallback'')] = []
   \<and> transcription_data_field [(''text'', FStr ''fallback'')] = []
   \<and> parseTranscriptionData sample_json_parse [(''text'', FStr ''fallback'')] = ''fallback''"
proof -
  have a: "transcription_data_field sample_transcript_body \<noteq> []
     \<and> sample_json_parse (transcription_data_field sample_transcript_body)
       = Some (JObj [(''transcript'', JStr ''hello'')])"
    by code_simp
  have b: "transcription_data_field [(''TranscriptionData'', FStr ''oops''), (''text'', FStr ''fallback'')]
       \<noteq> []
     \<and> sample_json_parse
        (transcription_data_field [(''TranscriptionData'', FStr ''oops''), (''text'', FStr ''fallback'')])
       = None"
    by code_simp
  have c: "transcription_data_field [(''text'', FStr ''fallback'')] = []"
    by code_simp
  have f: "field_truthy [(''transcript'', JStr ''hello'')] ''transcript''"
    "field_text [(''transcript'', JStr ''hello'')] ''transcript'' = ''hello''"
    by (simp_all add: field_truthy_def field_text_def)
  have p: "pick [(''text'', FStr ''fallback'')] text_aliases = ''fallback''"
    by code_simp
  have 1: "parseTranscriptionData sample_json_parse sample_transcript_body = ''hello''"
    using transcript_extraction [where parse = sample_json_parse and body = sample_transcript_body,
        THEN conjunct2, THEN conjunct1, THEN mp, OF a] f
    by (simp only: if_True)
  have 2: "parseTranscriptionData sample_json_parse
        [(''TranscriptionData'', FStr ''oops''), (''text'', FStr ''fallback'')] = []"
    by (rule transcript_extraction [where parse = sample_json_parse
          and body = "[(''TranscriptionData'', FStr ''oops''), (''text'', FStr ''fallback'')]",
          THEN conjunct1, THEN mp, OF b])
  have 3: "parseTranscriptionData sample_json_parse [(''text'', FStr ''fallback'')] = ''fallback''"
    using transcript_extraction [where parse = sample_json_parse
        and body = "[(''text'', FStr ''fallback'')]",
        THEN conjunct2, THEN conjunct2, THEN conjunct2, THEN conjunct2, THEN mp, OF c] p
    by (simp only:)
  from a 1 b 2 c 3 show ?thesis by (simp only: simp_thms)
qed

end
